theory Spec2Isabelle
  imports Complex_Main
begin

section \<open>JavaScript values\<close>

text \<open>
  The cart of \<^verbatim>\<open>script.js\<close> holds untyped objects: what is read back from
  \<^verbatim>\<open>localStorage\<close> can carry any JSON value in any field. A field value is
  modelled as a primitive JavaScript value; \<open>Undefined\<close> is also the value of a
  property that is absent. Nested objects and arrays as field values are outside the
  model.

  A number of the code has one representation: \<open>NaN\<close>; \<open>Num n\<close> for an integer of
  magnitude up to \<open>2^53\<close> (both zeros are \<open>Num 0\<close>: the code does not tell them
  apart); \<open>Float t\<close> for every other number (a fraction, a larger integer, an infinity),
  named by the text \<open>t\<close> that \<^verbatim>\<open>String\<close> gives for it, as in
  \<open>Float ''10.5''\<close>, \<open>Float ''1e+21''\<close>, \<open>Float ''-Infinity''\<close>. The predicate
  \<open>exact_number\<close> below says that a value is in this representation.

  Arithmetic is not that of the doubles. A sum of integers is the exact sum and the
  integer read from a text is the exact integer, which is what the code computes as long as
  the result is at most \<open>2^53\<close> in magnitude; a larger \<open>Num n\<close> is the code's number only
  when \<open>n\<close> is itself a double. A sum with a \<open>Float\<close> is not computed. Every statement
  below that depends on such a result carries the bound as a hypothesis.
\<close>

datatype jsval =
    Undefined
  | Null
  | Bool bool
  | NaN
  | Num int
  | Float string
  | Str string

text \<open>Truthiness, as in \<^verbatim>\<open>if (v)\<close>, \<^verbatim>\<open>a && b\<close>, \<^verbatim>\<open>a || b\<close>.\<close>

fun truthy :: "jsval \<Rightarrow> bool" where
  "truthy Undefined = False"
| "truthy Null = False"
| "truthy (Bool b) = b"
| "truthy NaN = False"
| "truthy (Num n) = (n \<noteq> 0)"
| "truthy (Float t) = True"
| "truthy (Str s) = (s \<noteq> [])"

text \<open>\<^verbatim>\<open>typeof v === 'string'\<close>.\<close>

fun is_string :: "jsval \<Rightarrow> bool" where
  "is_string (Str s) = True"
| "is_string v = False"

text \<open>\<^verbatim>\<open>a === b\<close>: structural on primitives, except that NaN equals nothing.\<close>

definition strict_eq :: "jsval \<Rightarrow> jsval \<Rightarrow> bool" where
  "strict_eq a b = (a = b \<and> a \<noteq> NaN)"

subsection \<open>Number to text and back\<close>

definition digit_char :: "int \<Rightarrow> char" where
  "digit_char d = ''0123456789'' ! nat (d mod 10)"

function decimal :: "int \<Rightarrow> string" where
  "decimal n = (if n < 10 then [digit_char n] else decimal (n div 10) @ [digit_char (n mod 10)])"
  by pat_completeness auto
termination
  by (relation "measure nat") auto

declare decimal.simps [simp del]

text \<open>
  The text of an integer is its decimal digits; from \<open>10^21\<close> on it is in exponent
  notation: the first digit, the further digits up to the last nonzero one behind a dot,
  \<^verbatim>\<open>e+\<close> and the exponent (\<^verbatim>\<open>String(1e21)\<close> is
  \<^verbatim>\<open>"1e+21"\<close>). Beyond \<open>2^53\<close> these are the digits that
  \<^verbatim>\<open>String\<close> gives only for an integer whose own digits are the shortest
  that read back as it, as for \<open>10^21\<close>.
\<close>

definition exponent_text :: "int \<Rightarrow> string" where
  "exponent_text n =
     (let ds = decimal n;
          sig = rev (dropWhile (\<lambda>c. c = CHR ''0'') (rev ds))
      in take 1 ds @ (if length sig \<le> 1 then [] else CHR ''.'' # drop 1 sig)
         @ ''e+'' @ decimal (int (length ds) - 1))"

definition number_text :: "int \<Rightarrow> string" where
  "number_text n = (if n < 10 ^ 21 then decimal n else exponent_text n)"

text \<open>\<^verbatim>\<open>String(v)\<close>.\<close>

fun to_string :: "jsval \<Rightarrow> string" where
  "to_string Undefined = ''undefined''"
| "to_string Null = ''null''"
| "to_string (Bool b) = (if b then ''true'' else ''false'')"
| "to_string NaN = ''NaN''"
| "to_string (Num n) = (if n < 0 then CHR ''-'' # number_text (- n) else number_text n)"
| "to_string (Float t) = t"
| "to_string (Str s) = s"

text \<open>
  The value of a digit in radix 10 or 16, and the white space that \<^verbatim>\<open>parseInt\<close>
  skips: tab, line feed, vertical tab, form feed, carriage return, space. A text is a list
  of bytes, and the code also skips white space beyond ASCII (U+00A0 and others), which
  these six do not cover: a statement below that reads a number from a text asks for an
  ASCII text (\<open>ascii\<close>).
\<close>

definition digit_of :: "char \<Rightarrow> int option" where
  "digit_of c = map_of
     [(CHR ''0'', 0), (CHR ''1'', 1), (CHR ''2'', 2), (CHR ''3'', 3), (CHR ''4'', 4),
      (CHR ''5'', 5), (CHR ''6'', 6), (CHR ''7'', 7), (CHR ''8'', 8), (CHR ''9'', 9),
      (CHR ''a'', 10), (CHR ''b'', 11), (CHR ''c'', 12), (CHR ''d'', 13), (CHR ''e'', 14),
      (CHR ''f'', 15), (CHR ''A'', 10), (CHR ''B'', 11), (CHR ''C'', 12), (CHR ''D'', 13),
      (CHR ''E'', 14), (CHR ''F'', 15)] c"

definition radix_digit :: "int \<Rightarrow> char \<Rightarrow> bool" where
  "radix_digit r c = (case digit_of c of None \<Rightarrow> False | Some d \<Rightarrow> d < r)"

definition digit_val :: "char \<Rightarrow> int" where
  "digit_val c = (case digit_of c of None \<Rightarrow> 0 | Some d \<Rightarrow> d)"

definition radix_value :: "int \<Rightarrow> string \<Rightarrow> int" where
  "radix_value r ds = foldl (\<lambda>acc c. acc * r + digit_val c) 0 ds"

definition is_space :: "char \<Rightarrow> bool" where
  "is_space c = (c \<in> set [CHR 0x09, CHR 0x0A, CHR 0x0B, CHR 0x0C, CHR 0x0D, CHR 0x20])"

text \<open>
  \<^verbatim>\<open>parseInt(s)\<close> on a string, no radix given: skip leading white space, read a
  sign, read \<^verbatim>\<open>0x\<close> as the mark of radix 16, take the longest run of digits;
  no digit gives NaN. The result here is the integer that the digits denote; the code's
  result is the double nearest to it (an infinity when the digits go beyond the doubles),
  the same number as long as the integer is at most \<open>2^53\<close> in magnitude.
\<close>

definition parseInt_string :: "string \<Rightarrow> jsval" where
  "parseInt_string s =
     (let s1 = dropWhile is_space s;
          neg = (take 1 s1 = ''-'');
          s2 = (if take 1 s1 = ''-'' \<or> take 1 s1 = ''+'' then drop 1 s1 else s1);
          hex = (take 2 s2 = ''0x'' \<or> take 2 s2 = ''0X'');
          r = (if hex then 16 else 10);
          s3 = (if hex then drop 2 s2 else s2);
          z = takeWhile (radix_digit r) s3
      in if z = [] then NaN
         else Num ((if neg then - 1 else 1) * radix_value r z))"

text \<open>\<^verbatim>\<open>parseInt(v)\<close>: the argument is converted to a string first.\<close>

definition parseInt :: "jsval \<Rightarrow> jsval" where
  "parseInt v = parseInt_string (to_string v)"

text \<open>
  \<^verbatim>\<open>a + b\<close>: concatenation when either operand is a string, else the sum of the
  operands as numbers (\<^verbatim>\<open>undefined\<close> is NaN, \<^verbatim>\<open>null\<close> and
  \<^verbatim>\<open>false\<close> are 0, \<^verbatim>\<open>true\<close> is 1). With NaN the sum is NaN. The
  sum of two integers is their exact sum, which is the code's sum as long as it is at most
  \<open>2^53\<close> in magnitude. The sum of a \<open>Float\<close> and a number is not computed:
  \<open>Float []\<close>, which names no number, stands for it, and no statement below reaches it.
\<close>

fun prim_number :: "jsval \<Rightarrow> int option" where
  "prim_number Undefined = None"
| "prim_number Null = Some 0"
| "prim_number (Bool b) = Some (if b then 1 else 0)"
| "prim_number NaN = None"
| "prim_number (Num n) = Some n"
| "prim_number (Float t) = None"
| "prim_number (Str s) = None"

fun is_float :: "jsval \<Rightarrow> bool" where
  "is_float (Float t) = True"
| "is_float v = False"

definition js_plus :: "jsval \<Rightarrow> jsval \<Rightarrow> jsval" where
  "js_plus a b =
     (if is_string a \<or> is_string b then Str (to_string a @ to_string b)
      else if a = Undefined \<or> a = NaN \<or> b = Undefined \<or> b = NaN then NaN
      else if is_float a \<or> is_float b then Float []
      else (case (prim_number a, prim_number b) of
              (Some x, Some y) \<Rightarrow> Num (x + y)
            | _ \<Rightarrow> NaN))"

section \<open>Cart items\<close>

text \<open>
  An item is an object with the properties the code reads. A property that is absent
  reads as \<open>Undefined\<close>. The fields \<open>id\<close> and \<open>image\<close> of the source carry a
  prime here, their names being taken in HOL.
\<close>

record item =
  id' :: jsval
  name :: jsval
  price :: jsval
  quantity :: jsval
  image' :: jsval
  category :: jsval

text \<open>
  An element of the array that \<^verbatim>\<open>JSON.parse\<close> returns: an object, or a value
  that has no properties of its own to read (null, a number, a string, a boolean, a
  nested array).
\<close>

datatype element = NotObject | Object item

section \<open>The normalization pass\<close>

text \<open>
  \<^verbatim>\<open>validate\<close> first keeps the elements \<^verbatim>\<open>item\<close> with
  \<^verbatim>\<open>item && item.id && typeof item.id === 'string' && item.name\<close>.
\<close>

fun filter_items :: "element list \<Rightarrow> item list" where
  "filter_items [] = []"
| "filter_items (NotObject # es) = filter_items es"
| "filter_items (Object it # es) =
     (if truthy (id' it) \<and> is_string (id' it) \<and> truthy (name it)
      then it # filter_items es else filter_items es)"

text \<open>
  \<^verbatim>\<open>let qty = parseInt(item.quantity); if (isNaN(qty) || qty < 1) qty = 1;\<close>
\<close>

definition normal_quantity :: "jsval \<Rightarrow> int" where
  "normal_quantity q = (case parseInt q of Num n \<Rightarrow> (if n < 1 then 1 else n) | _ \<Rightarrow> 1)"

text \<open>
  \<^verbatim>\<open>let priceStr = item.price;
  if (typeof priceStr !== 'string') priceStr = String(priceStr || '0');\<close>
\<close>

definition price_string :: "jsval \<Rightarrow> jsval" where
  "price_string p =
     (if is_string p then p else Str (to_string (if truthy p then p else Str ''0'')))"

text \<open>
  \<^verbatim>\<open>uniqueItems\<close> is a plain object used as a dictionary. Its own properties
  are kept in creation order. A read \<^verbatim>\<open>uniqueItems[id]\<close> that finds no own
  property goes on to \<^verbatim>\<open>Object.prototype\<close>, whose properties are all truthy
  (functions, and the prototype object itself for \<^verbatim>\<open>__proto__\<close>).
\<close>

type_synonym props = "(string \<times> item) list"

definition object_prototype_keys :: "string list" where
  "object_prototype_keys =
     [''constructor'', ''__defineGetter__'', ''__defineSetter__'', ''hasOwnProperty'',
      ''__lookupGetter__'', ''__lookupSetter__'', ''isPrototypeOf'',
      ''propertyIsEnumerable'', ''toString'', ''valueOf'', ''__proto__'',
      ''toLocaleString'']"

text \<open>
  One turn of the \<^verbatim>\<open>forEach\<close>. When \<^verbatim>\<open>uniqueItems[id]\<close> is an own
  property, its quantity grows by \<open>qty\<close>. When it is an inherited one, the
  \<^verbatim>\<open>+=\<close> lands on that built-in object and \<^verbatim>\<open>uniqueItems\<close> gains
  nothing. Otherwise the copy \<^verbatim>\<open>{...item, id, quantity: qty, price: priceStr}\<close>
  becomes a new own property.
\<close>

definition merge_item :: "props \<Rightarrow> item \<Rightarrow> props" where
  "merge_item u it =
     (let k = to_string (id' it);
          qty = normal_quantity (quantity it);
          priceStr = price_string (price it)
      in if k \<in> set (map fst u)
         then map (\<lambda>(k', e). if k' = k then (k', e\<lparr>quantity := js_plus (quantity e) (Num qty)\<rparr>)
                               else (k', e)) u
         else if k \<in> set object_prototype_keys then u
         else u @ [(k, it\<lparr>quantity := Num qty, price := priceStr\<rparr>)])"

text \<open>
  \<^verbatim>\<open>Object.values\<close> lists the own properties whose key is an array index (the
  decimal text of an integer below \<open>2^32 - 1\<close>) first, in ascending numeric order,
  and then the other properties in creation order.
\<close>

definition array_index :: "string \<Rightarrow> bool" where
  "array_index k =
     (k \<noteq> [] \<and> list_all (radix_digit 10) k \<and> (k = ''0'' \<or> take 1 k \<noteq> ''0'')
      \<and> radix_value 10 k < 4294967295)"

definition object_values :: "props \<Rightarrow> item list" where
  "object_values u =
     map snd (sort_key (\<lambda>p. radix_value 10 (fst p)) (filter (\<lambda>p. array_index (fst p)) u)
              @ filter (\<lambda>p. \<not> array_index (fst p)) u)"

definition validate_items :: "element list \<Rightarrow> item list" where
  "validate_items es = object_values (foldl merge_item [] (filter_items es))"

section \<open>The cart and its storage\<close>

text \<open>
  The text held under the key \<^verbatim>\<open>'cart'\<close>, told apart by what \<^verbatim>\<open>init\<close>
  does with it: no entry (\<^verbatim>\<open>getItem\<close> returns null), the empty string (falsy),
  a text that \<^verbatim>\<open>JSON.parse\<close> rejects, or a text that it decodes to the given
  value. Of a decoded value the code only uses whether it is an array, and its elements.
\<close>

datatype parsed = NotArray | Array "element list"

datatype stored = NoEntry | EmptyText | BadText | JsonText parsed

datatype error = SyntaxError | TypeError

record cart =
  items :: "item list"
  storage :: stored

text \<open>
  \<^verbatim>\<open>JSON.stringify\<close> writes NaN and the infinities as \<^verbatim>\<open>null\<close> and
  leaves out undefined properties, so the text written by \<^verbatim>\<open>save\<close> decodes to
  the items with NaN and the infinities replaced by null.
\<close>

definition json_value :: "jsval \<Rightarrow> jsval" where
  "json_value v =
     (if v = NaN \<or> v = Float ''Infinity'' \<or> v = Float ''-Infinity'' then Null else v)"

definition json_item :: "item \<Rightarrow> item" where
  "json_item it =
     \<lparr>id' = json_value (id' it), name = json_value (name it), price = json_value (price it),
      quantity = json_value (quantity it), image' = json_value (image' it),
      category = json_value (category it)\<rparr>"

definition save :: "cart \<Rightarrow> cart" where
  "save c = c\<lparr>storage := JsonText (Array (map (\<lambda>it. Object (json_item it)) (items c)))\<rparr>"

definition JSON_parse :: "stored \<Rightarrow> error + parsed" where
  "JSON_parse st =
     (case st of
        NoEntry \<Rightarrow> Inr NotArray
      | EmptyText \<Rightarrow> Inl SyntaxError
      | BadText \<Rightarrow> Inl SyntaxError
      | JsonText p \<Rightarrow> Inr p)"

text \<open>
  \<^verbatim>\<open>validate\<close> runs on what \<^verbatim>\<open>init\<close> has just assigned to
  \<^verbatim>\<open>this.items\<close>; that value is the first argument here. On a value that is
  not an array, \<^verbatim>\<open>this.items.filter(...)\<close> raises a TypeError.
\<close>

definition validate :: "parsed \<Rightarrow> cart \<Rightarrow> error + cart" where
  "validate p c =
     (case p of
        NotArray \<Rightarrow> Inl TypeError
      | Array es \<Rightarrow>
          (let c' = c\<lparr>items := validate_items es\<rparr>
           in if length (items c') \<noteq> length es then Inr (save c') else Inr c'))"

text \<open>
  \<^verbatim>\<open>init\<close>: the \<^verbatim>\<open>try\<close> block around \<^verbatim>\<open>JSON.parse\<close> and
  \<^verbatim>\<open>validate\<close>, whose \<^verbatim>\<open>catch\<close> empties the list. The badge, the
  rendered view and the notification are written to the page only and are not part of the
  cart's state.
\<close>

definition init :: "cart \<Rightarrow> error + cart" where
  "init c =
     (if storage c = NoEntry \<or> storage c = EmptyText then Inr c
      else (case JSON_parse (storage c) of
              Inl e \<Rightarrow> Inr (c\<lparr>items := []\<rparr>)
            | Inr p \<Rightarrow>
                (case validate p c of
                   Inl e \<Rightarrow> Inr (c\<lparr>items := []\<rparr>)
                 | Inr c' \<Rightarrow> Inr c')))"

text \<open>The \<^verbatim>\<open>Cart\<close> object as the page load creates it, over the given storage.\<close>

definition page_load :: "stored \<Rightarrow> cart" where
  "page_load st = \<lparr>items = [], storage = st\<rparr>"

section \<open>The operations on the cart\<close>

text \<open>
  \<^verbatim>\<open>this.items.find(...)\<close> returns the first object that matches, and the
  assignment to one of its properties changes that object where it stands in the list.
  Every object of the list was created by a spread (in \<^verbatim>\<open>validate\<close> or in
  \<^verbatim>\<open>add\<close>), so no two positions share an object.
\<close>

fun update_first :: "(item \<Rightarrow> bool) \<Rightarrow> (item \<Rightarrow> item) \<Rightarrow> item list \<Rightarrow> item list" where
  "update_first P f [] = []"
| "update_first P f (x # xs) = (if P x then f x # xs else x # update_first P f xs)"

text \<open>
  \<^verbatim>\<open>add(product)\<close> also writes to its argument, so the model returns the
  argument object as it is left, with the cart. The argument is an object of the caller's
  (the click handler of a product card builds a new one at each click), not one of the
  objects of the list.
\<close>

definition add :: "item \<Rightarrow> cart \<Rightarrow> item \<times> cart" where
  "add product c =
     (if \<not> truthy (id' product) then (product, c)
      else
        (let product1 =
               (if truthy (price product) \<and> \<not> is_string (price product)
                then product\<lparr>price := Str (to_string (price product))\<rparr>
                else product)
         in (case List.find (\<lambda>it. strict_eq (id' it) (id' product1)) (items c) of
               Some existingItem \<Rightarrow>
                 (product1,
                  save (c\<lparr>items :=
                    update_first (\<lambda>it. strict_eq (id' it) (id' product1))
                      (\<lambda>it. it\<lparr>quantity := js_plus (quantity it) (Num 1)\<rparr>) (items c)\<rparr>))
             | None \<Rightarrow>
                 (product1, save (c\<lparr>items := items c @ [product1\<lparr>quantity := Num 1\<rparr>]\<rparr>)))))"

definition remove :: "jsval \<Rightarrow> cart \<Rightarrow> cart" where
  "remove productId c =
     save (c\<lparr>items := filter (\<lambda>it. \<not> strict_eq (id' it) productId) (items c)\<rparr>)"

text \<open>
  \<^verbatim>\<open>newQty <= 0\<close> on the result of \<^verbatim>\<open>parseInt\<close>, which is a number:
  false on NaN.
\<close>

fun le_zero :: "jsval \<Rightarrow> bool" where
  "le_zero (Num n) = (n \<le> 0)"
| "le_zero v = False"

definition updateQuantity :: "jsval \<Rightarrow> jsval \<Rightarrow> cart \<Rightarrow> cart" where
  "updateQuantity productId qty c =
     (case List.find (\<lambda>it. strict_eq (id' it) productId) (items c) of
        None \<Rightarrow> c
      | Some found \<Rightarrow>
          (let newQty = parseInt qty
           in if le_zero newQty then remove productId c
              else save (c\<lparr>items :=
                     update_first (\<lambda>it. strict_eq (id' it) productId)
                       (\<lambda>it. it\<lparr>quantity := newQty\<rparr>) (items c)\<rparr>)))"

definition clear :: "cart \<Rightarrow> cart" where
  "clear c = save (c\<lparr>items := []\<rparr>)"

section \<open>The total\<close>

text \<open>
  Prices are decimal fractions. \<^verbatim>\<open>getTotal\<close> is modelled in exact rational
  arithmetic: a number is \<open>Some q\<close>, and \<open>None\<close> stands for a value that is not a
  finite number (NaN or an infinity); a sum or a product with such a value is such a value
  again. The model is the code wherever no intermediate result of the double arithmetic is
  rounded.
\<close>

definition num_add :: "rat option \<Rightarrow> rat option \<Rightarrow> rat option" where
  "num_add a b = (case (a, b) of (Some x, Some y) \<Rightarrow> Some (x + y) | _ \<Rightarrow> None)"

definition num_mult :: "rat option \<Rightarrow> rat option \<Rightarrow> rat option" where
  "num_mult a b = (case (a, b) of (Some x, Some y) \<Rightarrow> Some (x * y) | _ \<Rightarrow> None)"

definition trim :: "string \<Rightarrow> string" where
  "trim s = rev (dropWhile is_space (rev (dropWhile is_space s)))"

definition radix_literal :: "int \<Rightarrow> string \<Rightarrow> rat option" where
  "radix_literal r ds =
     (if ds \<noteq> [] \<and> list_all (radix_digit r) ds then Some (of_int (radix_value r ds)) else None)"

text \<open>The value of \<open>ip.fp\<close>, digits before and after the dot.\<close>

definition mantissa :: "string \<Rightarrow> string \<Rightarrow> rat" where
  "mantissa ip fp = of_int (radix_value 10 ip) + of_int (radix_value 10 fp) / 10 ^ length fp"

definition scale :: "rat \<Rightarrow> bool \<Rightarrow> string \<Rightarrow> rat" where
  "scale m eneg ds =
     (if eneg then m / 10 ^ nat (radix_value 10 ds) else m * 10 ^ nat (radix_value 10 ds))"

text \<open>An unsigned decimal literal that must span the whole text (\<^verbatim>\<open>Number(s)\<close>).\<close>

definition decimal_literal :: "string \<Rightarrow> rat option" where
  "decimal_literal u =
     (let ip = takeWhile (radix_digit 10) u;
          r1 = dropWhile (radix_digit 10) u;
          dot = (take 1 r1 = ''.'');
          fp = (if dot then takeWhile (radix_digit 10) (drop 1 r1) else []);
          r2 = (if dot then dropWhile (radix_digit 10) (drop 1 r1) else r1)
      in if ip = [] \<and> fp = [] then None
         else if r2 = [] then Some (mantissa ip fp)
         else if take 1 r2 = ''e'' \<or> take 1 r2 = ''E'' then
           (let r3 = drop 1 r2;
                eneg = (take 1 r3 = ''-'');
                ds = (if take 1 r3 = ''-'' \<or> take 1 r3 = ''+'' then drop 1 r3 else r3)
            in if ds \<noteq> [] \<and> list_all (radix_digit 10) ds
               then Some (scale (mantissa ip fp) eneg ds) else None)
         else None)"

definition string_to_number :: "string \<Rightarrow> rat option" where
  "string_to_number s =
     (let t = trim s
      in if t = [] then Some 0
         else if take 2 t = ''0x'' \<or> take 2 t = ''0X'' then radix_literal 16 (drop 2 t)
         else if take 2 t = ''0o'' \<or> take 2 t = ''0O'' then radix_literal 8 (drop 2 t)
         else if take 2 t = ''0b'' \<or> take 2 t = ''0B'' then radix_literal 2 (drop 2 t)
         else
           (let neg = (take 1 t = ''-'');
                u = (if take 1 t = ''-'' \<or> take 1 t = ''+'' then drop 1 t else t)
            in map_option (\<lambda>x. if neg then - x else x) (decimal_literal u)))"

text \<open>The operand of an arithmetic operator as a number.\<close>

fun to_number :: "jsval \<Rightarrow> rat option" where
  "to_number Undefined = None"
| "to_number Null = Some 0"
| "to_number (Bool b) = Some (if b then 1 else 0)"
| "to_number NaN = None"
| "to_number (Num n) = Some (of_int n)"
| "to_number (Float t) = string_to_number t"
| "to_number (Str s) = string_to_number s"

text \<open>
  \<^verbatim>\<open>parseFloat(s)\<close>: the longest decimal literal that starts the text, after
  white space and a sign; an exponent counts only when digits follow it. The result here
  is the exact value of the literal; the code's result is the double nearest to it.
\<close>

definition parseFloat :: "string \<Rightarrow> rat option" where
  "parseFloat s =
     (let t = dropWhile is_space s;
          neg = (take 1 t = ''-'');
          u = (if take 1 t = ''-'' \<or> take 1 t = ''+'' then drop 1 t else t);
          ip = takeWhile (radix_digit 10) u;
          r1 = dropWhile (radix_digit 10) u;
          dot = (take 1 r1 = ''.'');
          fp = (if dot then takeWhile (radix_digit 10) (drop 1 r1) else []);
          r2 = (if dot then dropWhile (radix_digit 10) (drop 1 r1) else r1);
          r3 = drop 1 r2;
          eneg = (take 1 r3 = ''-'');
          r4 = (if take 1 r3 = ''-'' \<or> take 1 r3 = ''+'' then drop 1 r3 else r3);
          ds = takeWhile (radix_digit 10) r4;
          m = (if (take 1 r2 = ''e'' \<or> take 1 r2 = ''E'') \<and> ds \<noteq> []
               then scale (mantissa ip fp) eneg ds else mantissa ip fp)
      in if ip = [] \<and> fp = [] then None else Some (if neg then - m else m))"

text \<open>
  \<^verbatim>\<open>parseFloat(priceStr.replace(/[^\d.]/g, '')) || 0\<close>, with
  \<^verbatim>\<open>priceStr\<close> made a string as in \<^verbatim>\<open>validate\<close>.
\<close>

definition item_price :: "item \<Rightarrow> rat" where
  "item_price it =
     (let priceStr = to_string (price_string (price it));
          stripped = filter (\<lambda>c. radix_digit 10 c \<or> c = CHR ''.'') priceStr
      in (case parseFloat stripped of None \<Rightarrow> 0 | Some x \<Rightarrow> x))"

text \<open>\<^verbatim>\<open>item.quantity || 1\<close>.\<close>

definition quantity_or_one :: "item \<Rightarrow> jsval" where
  "quantity_or_one it = (if truthy (quantity it) then quantity it else Num 1)"

definition getTotal :: "cart \<Rightarrow> rat option" where
  "getTotal c =
     foldl (\<lambda>total it. num_add total (num_mult (Some (item_price it)) (to_number (quantity_or_one it))))
       (Some 0) (items c)"

section \<open>The rendered view\<close>

text \<open>
  \<^verbatim>\<open>render\<close> writes the page region of the cart, taken to exist here (without
  it \<^verbatim>\<open>render\<close> returns at once). The view is modelled by its content: the
  placeholder of the empty cart, or one row per item, in the order of the
  \<^verbatim>\<open>forEach\<close> over \<^verbatim>\<open>this.items\<close>, and the total. A row carries what
  is interpolated into the markup, numbers before their formatting.
\<close>

record row =
  row_id :: string
  row_image :: string
  row_name :: string
  row_category :: string
  row_price :: string
  row_quantity :: jsval
  row_total :: "rat option"

text \<open>\<^verbatim>\<open>a || b\<close>.\<close>

definition or_else :: "jsval \<Rightarrow> jsval \<Rightarrow> jsval" where
  "or_else a b = (if truthy a then a else b)"

definition render_row :: "item \<Rightarrow> row" where
  "render_row it =
     (let priceStr = to_string (price_string (price it));
          priceVal = item_price it;
          qty = or_else (parseInt (quantity it)) (Num 1);
          total = num_mult (Some priceVal) (to_number qty);
          imgSrc = or_else (image' it) (Str ''https://via.placeholder.com/80'');
          nm = or_else (name it) (Str ''Unknown Product'');
          cat = or_else (category it) (Str ''Hardware'')
      in \<lparr>row_id = to_string (id' it), row_image = to_string imgSrc, row_name = to_string nm,
          row_category = to_string cat, row_price = priceStr, row_quantity = qty,
          row_total = total\<rparr>)"

datatype view = EmptyCart | CartTable "row list" "rat option"

definition render :: "cart \<Rightarrow> view" where
  "render c = (if items c = [] then EmptyCart else CartTable (map render_row (items c)) (getTotal c))"

section \<open>Event handlers\<close>

text \<open>
  The handler of the \<^verbatim>\<open>change\<close> event on a quantity input:
  \<^verbatim>\<open>const id = e.target.dataset.id; const newQty = parseInt(e.target.value);
  if (id) this.updateQuantity(id, newQty);\<close>
\<close>

definition change_handler :: "jsval \<Rightarrow> string \<Rightarrow> cart \<Rightarrow> cart" where
  "change_handler ident text c =
     (let newQty = parseInt (Str text) in if truthy ident then updateQuantity ident newQty c else c)"

section \<open>Vocabulary of the properties\<close>

text \<open>
  A stored text that is present but cannot be decoded into a list: the empty string, a
  text that is not JSON, or JSON for something that is not an array.
\<close>

fun undecodable :: "stored \<Rightarrow> bool" where
  "undecodable EmptyText = True"
| "undecodable BadText = True"
| "undecodable (JsonText NotArray) = True"
| "undecodable st = False"

text \<open>
  The elements of a list at their first occurrence, in order; \<open>seen\<close> holds what has
  occurred already.
\<close>

primrec firsts_from :: "'a set \<Rightarrow> 'a list \<Rightarrow> 'a list" where
  "firsts_from seen [] = []"
| "firsts_from seen (x # xs) =
     (if x \<in> seen then firsts_from seen xs else x # firsts_from (insert x seen) xs)"

definition first_occurrences :: "'a list \<Rightarrow> 'a list" where
  "first_occurrences xs = firsts_from {} xs"

text \<open>The key under which \<^verbatim>\<open>validate\<close> files an item: its \<^verbatim>\<open>id\<close>.\<close>

definition key :: "item \<Rightarrow> string" where
  "key it = to_string (id' it)"

text \<open>
  An object as the click handler of an "add to cart" button builds it from a product card:
  \<^verbatim>\<open>{id, name, price, image, category}\<close>, all texts. The examples below use
  it with one image and an empty category.
\<close>

definition product :: "string \<Rightarrow> string \<Rightarrow> string \<Rightarrow> item" where
  "product i n p =
     \<lparr>id' = Str i, name = Str n, price = Str p, quantity = Undefined,
      image' = Str ''img.png'', category = Str []\<rparr>"

text \<open>
  The argument of \<^verbatim>\<open>add\<close> after its step
  \<^verbatim>\<open>if (product.price && typeof product.price !== 'string')
  product.price = String(product.price);\<close>
\<close>

definition coerced :: "item \<Rightarrow> item" where
  "coerced p = (if truthy (price p) \<and> \<not> is_string (price p)
                then p\<lparr>price := Str (to_string (price p))\<rparr> else p)"

text \<open>
  What the first step of \<^verbatim>\<open>validate\<close> asks of an object, and what holds of
  every property of \<^verbatim>\<open>uniqueItems\<close> while the loop runs.
\<close>

definition kept :: "item \<Rightarrow> bool" where
  "kept it = (truthy (id' it) \<and> is_string (id' it) \<and> truthy (name it))"

definition filed :: "string \<times> item \<Rightarrow> bool" where
  "filed p = (id' (snd p) = Str (fst p) \<and> fst p \<noteq> [] \<and> fst p \<notin> set object_prototype_keys
              \<and> truthy (name (snd p)) \<and> is_string (price (snd p))
              \<and> (\<exists>n. quantity (snd p) = Num n \<and> 1 \<le> n))"

abbreviation nq :: "item \<Rightarrow> int" where
  "nq it \<equiv> normal_quantity (quantity it)"

text \<open>A quantity that is an integer of at most \<open>2^53\<close>.\<close>

definition plain :: "jsval \<Rightarrow> bool" where
  "plain q = (case q of Num n \<Rightarrow> n \<le> 9007199254740992 | _ \<Rightarrow> False)"

text \<open>The invariant of the data model: every quantity is an integer, at least 1.\<close>

definition positive_quantities :: "cart \<Rightarrow> bool" where
  "positive_quantities c = list_all (\<lambda>it. \<exists>n. quantity it = Num n \<and> 1 \<le> n) (items c)"

text \<open>
  The shape of the texts that \<^verbatim>\<open>String\<close> gives for the numbers that are not
  integers of magnitude up to \<open>2^53\<close>. Without the sign such a text is
  \<^verbatim>\<open>Infinity\<close>, or digits, an optional fraction and an optional exponent, where

    \<^item> the digits before the dot have no leading zero (a single \<^verbatim>\<open>0\<close> apart) and
      the fraction does not end in \<^verbatim>\<open>0\<close>;
    \<^item> there are at most 17 significant digits;
    \<^item> without an exponent there are at most 21 digits before the dot, at most five
      zeros open the fraction of a number below 1, and digits alone exceed \<open>2^53\<close>;
    \<^item> with an exponent there is one digit, not 0, before the dot, and the exponent is
      \<^verbatim>\<open>e+\<close> with 21 or more, or \<^verbatim>\<open>e-\<close> with 7 or more.

  Which of the texts of this shape carry the shortest digits of a double is not decided
  here: \<open>Float t\<close> is the number whose text is \<open>t\<close>, and names no number
  otherwise.
\<close>

definition int_part :: "string \<Rightarrow> string" where
  "int_part u = takeWhile (radix_digit 10) u"

definition after_int :: "string \<Rightarrow> string" where
  "after_int u = dropWhile (radix_digit 10) u"

definition has_dot :: "string \<Rightarrow> bool" where
  "has_dot u = (take 1 (after_int u) = ''.'')"

definition frac_part :: "string \<Rightarrow> string" where
  "frac_part u = (if has_dot u then takeWhile (radix_digit 10) (drop 1 (after_int u)) else [])"

definition after_frac :: "string \<Rightarrow> string" where
  "after_frac u = (if has_dot u then dropWhile (radix_digit 10) (drop 1 (after_int u)) else after_int u)"

definition significant :: "string \<Rightarrow> string" where
  "significant ds =
     rev (dropWhile (\<lambda>c. c = CHR ''0'') (rev (dropWhile (\<lambda>c. c = CHR ''0'') ds)))"

definition exponent_form :: "string \<Rightarrow> bool" where
  "exponent_form r =
     (r = [] \<or>
      (take 1 r = ''e'' \<and> drop 2 r \<noteq> [] \<and> list_all (radix_digit 10) (drop 2 r)
       \<and> take 1 (drop 2 r) \<noteq> ''0''
       \<and> ((take 1 (drop 1 r) = ''+'' \<and> 21 \<le> radix_value 10 (drop 2 r))
            \<or> (take 1 (drop 1 r) = ''-'' \<and> 7 \<le> radix_value 10 (drop 2 r)))))"

definition number_form :: "string \<Rightarrow> bool" where
  "number_form u =
     (int_part u \<noteq> [] \<and> (int_part u = ''0'' \<or> take 1 (int_part u) \<noteq> ''0'')
      \<and> (if has_dot u then frac_part u \<noteq> [] \<and> last (frac_part u) \<noteq> CHR ''0'' else True)
      \<and> length (significant (int_part u @ frac_part u)) \<le> 17
      \<and> exponent_form (after_frac u)
      \<and> (if after_frac u = []
          then length (int_part u) \<le> 21
               \<and> (if has_dot u
                    then int_part u \<noteq> ''0''
                         \<or> length (takeWhile (\<lambda>c. c = CHR ''0'') (frac_part u)) \<le> 5
                    else 9007199254740992 < radix_value 10 (int_part u))
          else length (int_part u) = 1 \<and> int_part u \<noteq> ''0''))"

definition float_text :: "string \<Rightarrow> bool" where
  "float_text t =
     (let u = (if take 1 t = ''-'' then drop 1 t else t)
      in u = ''Infinity'' \<or> number_form u)"

text \<open>
  A value in the representation of the code's values: an integer is at most \<open>2^53\<close> in
  magnitude, another number carries a text of the shape of a number's text.
\<close>

definition exact_number :: "jsval \<Rightarrow> bool" where
  "exact_number v =
     (case v of Num n \<Rightarrow> \<bar>n\<bar> \<le> 9007199254740992 | Float t \<Rightarrow> float_text t | _ \<Rightarrow> True)"

text \<open>A value that, when it is a text, is an ASCII text.\<close>

definition ascii :: "jsval \<Rightarrow> bool" where
  "ascii v = (case v of Str s \<Rightarrow> list_all (\<lambda>c. \<not> digit7 c) s | _ \<Rightarrow> True)"

text \<open>
  A quantity from which the embedding reads the number that the code reads: in the
  representation, and ASCII when it is a text.
\<close>

definition readable :: "jsval \<Rightarrow> bool" where
  "readable q = (exact_number q \<and> ascii q)"

text \<open>
  A rational that is a double: \<open>m / 2^k\<close> with \<open>\<bar>m\<bar> \<le> 2^53\<close> and \<open>k \<le> 1074\<close>, in
  lowest terms. On such operands an operation of the doubles whose exact result is such a
  rational again returns that result, unrounded.
\<close>

definition exact_double :: "rat \<Rightarrow> bool" where
  "exact_double q =
     (case quotient_of q of (a, b) \<Rightarrow> \<bar>a\<bar> \<le> 9007199254740992 \<and> b dvd 2 ^ 1074)"

text \<open>
  The number that \<^verbatim>\<open>getTotal\<close> multiplies the price of an item with:
  \<^verbatim>\<open>item.quantity || 1\<close>, as a number.
\<close>

definition counted :: "item \<Rightarrow> rat option" where
  "counted it = to_number (quantity_or_one it)"

text \<open>
  A list on which the doubles of \<^verbatim>\<open>getTotal\<close> round nothing, from the running
  total \<open>acc\<close> on: price and quantity are in the representation, the parsed price and
  the number of the quantity are doubles, and so are the product and the new running
  total. Once a quantity is not a finite number the total is not one either, whatever
  follows.
\<close>

fun unrounded :: "rat \<Rightarrow> item list \<Rightarrow> bool" where
  "unrounded acc [] = True"
| "unrounded acc (it # its) =
     (exact_number (price it) \<and> readable (quantity it) \<and> exact_double (item_price it)
      \<and> (case counted it of
            None \<Rightarrow> True
          | Some f \<Rightarrow> exact_double f \<and> exact_double (item_price it * f)
                      \<and> exact_double (acc + item_price it * f)
                      \<and> unrounded (acc + item_price it * f) its))"

section \<open>Properties\<close>

subsection \<open>A number below the exponent notation survives the round through its text\<close>

lemma digit_of_digit_char: "digit_of (digit_char d) = Some (d mod 10)"
proof -
  have "d mod 10 = 0 \<or> d mod 10 = 1 \<or> d mod 10 = 2 \<or> d mod 10 = 3 \<or> d mod 10 = 4
      \<or> d mod 10 = 5 \<or> d mod 10 = 6 \<or> d mod 10 = 7 \<or> d mod 10 = 8 \<or> d mod 10 = 9"
    by presburger
  then show ?thesis
    by (elim disjE) (simp_all add: digit_char_def digit_of_def)
qed

lemma radix_digit_digit_char: "radix_digit 10 (digit_char d)"
  by (simp add: radix_digit_def digit_of_digit_char)

lemma digit_val_digit_char: "digit_val (digit_char d) = d mod 10"
  by (simp add: digit_val_def digit_of_digit_char)

lemma digit_val_nonneg: "0 \<le> digit_val c"
  by (simp add: digit_val_def digit_of_def split: option.splits)

lemma radix_value_snoc: "radix_value r (ds @ [c]) = radix_value r ds * r + digit_val c"
  by (simp add: radix_value_def)

lemma decimal_digits: "0 \<le> n \<Longrightarrow> decimal n \<noteq> [] \<and> list_all (radix_digit 10) (decimal n)"
proof (induction n rule: decimal.induct)
  case (1 n)
  show ?case
  proof (cases "n < 10")
    case True
    then show ?thesis by (subst (1 2) decimal.simps) (simp add: radix_digit_digit_char)
  next
    case False
    with 1 show ?thesis by (subst (1 2) decimal.simps) (simp add: radix_digit_digit_char)
  qed
qed

lemma radix_value_decimal: "0 \<le> n \<Longrightarrow> radix_value 10 (decimal n) = n"
proof (induction n rule: decimal.induct)
  case (1 n)
  show ?case
  proof (cases "n < 10")
    case True
    with 1(2) show ?thesis
      by (subst decimal.simps) (simp add: radix_value_def digit_val_digit_char)
  next
    case False
    with 1 show ?thesis
      by (subst decimal.simps) (simp add: radix_value_snoc digit_val_digit_char)
  qed
qed

lemma radix_digit_not_space: "radix_digit r c \<Longrightarrow> \<not> is_space c"
  by (auto simp: radix_digit_def is_space_def digit_of_def split: option.splits)

lemma radix_digit_not_sign:
  "radix_digit r c \<Longrightarrow> c \<noteq> CHR ''-'' \<and> c \<noteq> CHR ''+'' \<and> c \<noteq> CHR ''x'' \<and> c \<noteq> CHR ''X''"
  by (auto simp: radix_digit_def digit_of_def split: option.splits)

lemma parseInt_string_digits:
  assumes "ds \<noteq> []" "list_all (radix_digit 10) ds"
  shows "parseInt_string ds = Num (radix_value 10 ds)"
    and "parseInt_string (CHR ''-'' # ds) = Num (- radix_value 10 ds)"
proof -
  obtain c cs where ds: "ds = c # cs" using assms(1) by (cases ds) auto
  have c: "radix_digit 10 c" and cs: "list_all (radix_digit 10) cs" using assms(2) ds by auto
  have nohex: "take 2 ds \<noteq> ''0x'' \<and> take 2 ds \<noteq> ''0X''"
  proof (cases cs)
    case Nil then show ?thesis using ds by simp
  next
    case (Cons d es)
    then have "radix_digit 10 d" using cs by simp
    then show ?thesis using ds Cons radix_digit_not_sign[of 10 d] by auto
  qed
  have tw: "takeWhile (radix_digit 10) ds = ds" using assms(2) by (simp add: list_all_iff)
  have sp: "dropWhile is_space ds = ds" using c ds radix_digit_not_space by auto
  have sg: "take 1 ds \<noteq> ''-''" "take 1 ds \<noteq> ''+''" using ds radix_digit_not_sign[OF c] by auto
  show "parseInt_string ds = Num (radix_value 10 ds)"
    unfolding parseInt_string_def Let_def sp using assms(1) nohex sg by (simp add: tw)
  have sp': "dropWhile is_space (CHR ''-'' # ds) = CHR ''-'' # ds" by (simp add: is_space_def)
  show "parseInt_string (CHR ''-'' # ds) = Num (- radix_value 10 ds)"
    unfolding parseInt_string_def Let_def sp' using assms(1) nohex by (simp add: tw)
qed

lemma parseInt_Num: "\<bar>n\<bar> < 10 ^ 21 \<Longrightarrow> parseInt (Num n) = Num n"
proof (cases "n < 0")
  case True
  assume b: "\<bar>n\<bar> < 10 ^ 21"
  from True have "0 \<le> - n" by simp
  from decimal_digits[OF this] radix_value_decimal[OF this] True b show ?thesis
    by (simp add: parseInt_def number_text_def parseInt_string_digits(2))
next
  case False
  assume b: "\<bar>n\<bar> < 10 ^ 21"
  from False have "0 \<le> n" by simp
  from decimal_digits[OF this] radix_value_decimal[OF this] False b show ?thesis
    by (simp add: parseInt_def number_text_def parseInt_string_digits(1))
qed

lemma parseInt_NaN: "parseInt NaN = NaN"
  by (simp add: parseInt_def parseInt_string_def is_space_def radix_digit_def digit_of_def)

lemma parseInt_string_minus_digit:
  assumes "radix_digit 10 c" "\<not> radix_digit 10 x" "x \<noteq> CHR ''x''" "x \<noteq> CHR ''X''"
  shows "parseInt_string (CHR ''-'' # c # x # r) = Num (- digit_val c)"
proof -
  have sp: "dropWhile is_space (CHR ''-'' # c # x # r) = CHR ''-'' # c # x # r"
    by (simp add: is_space_def)
  show ?thesis
    unfolding parseInt_string_def Let_def sp using assms
    by (simp add: radix_value_def)
qed

lemma exponent_text_shape:
  assumes "0 \<le> m"
  shows "\<exists>c x r. exponent_text m = c # x # r \<and> radix_digit 10 c \<and> \<not> radix_digit 10 x
           \<and> x \<noteq> CHR ''x'' \<and> x \<noteq> CHR ''X''"
proof -
  from decimal_digits [OF assms] obtain c cs where d: "decimal m = c # cs" "radix_digit 10 c"
    by (cases "decimal m") auto
  have dot: "\<not> radix_digit 10 CHR ''.''" and e: "\<not> radix_digit 10 CHR ''e''"
    by (simp_all add: radix_digit_def digit_of_def)
  show ?thesis
    using d dot e by (auto simp: exponent_text_def Let_def)
qed

lemma parseInt_Num_nonpositive:
  assumes "n \<le> 0"
  shows "\<exists>m. parseInt (Num n) = Num m \<and> m \<le> 0"
proof (cases "\<bar>n\<bar> < 10 ^ 21")
  case True
  with assms show ?thesis by (simp add: parseInt_Num)
next
  case False
  with assms have big: "\<not> - n < 10 ^ 21" and neg: "n < 0" by auto
  from neg have "0 \<le> - n" by simp
  from exponent_text_shape [OF this] obtain c x r where
    s: "exponent_text (- n) = c # x # r" "radix_digit 10 c" "\<not> radix_digit 10 x"
       "x \<noteq> CHR ''x''" "x \<noteq> CHR ''X''"
    by blast
  have "parseInt (Num n) = Num (- digit_val c)"
    using neg big s(1) parseInt_string_minus_digit [OF s(2-5)]
    by (simp add: parseInt_def number_text_def)
  then show ?thesis using digit_val_nonneg [of c] by simp
qed

subsection \<open>Loading\<close>

text \<open>
  Claim C8. On any cart, when the text stored under the cart key is not JSON, or is JSON
  for something that is not an array, \<^verbatim>\<open>init\<close> ends with the item list emptied
  and the storage untouched; when the page loads over an undecodable text, the empty
  string included, the item list is empty afterwards. No exception leaves
  \<^verbatim>\<open>init\<close>, on any cart: the error of \<^verbatim>\<open>JSON.parse\<close> or of
  \<^verbatim>\<open>validate\<close> is caught.
\<close>

theorem init_recovers_undecodable:
  "(storage c = BadText \<or> storage c = JsonText NotArray \<longrightarrow> init c = Inr (c\<lparr>items := []\<rparr>))
   \<and> (undecodable st \<longrightarrow> init (page_load st) = Inr \<lparr>items = [], storage = st\<rparr>)
   \<and> (\<forall>c1 e. init c1 \<noteq> Inl e)"
proof (intro conjI impI)
  assume "storage c = BadText \<or> storage c = JsonText NotArray"
  then show "init c = Inr (c\<lparr>items := []\<rparr>)"
    by (auto simp: init_def JSON_parse_def validate_def)
next
  assume "undecodable st"
  then show "init (page_load st) = Inr \<lparr>items = [], storage = st\<rparr>"
    by (cases st rule: undecodable.cases)
       (simp_all add: init_def page_load_def JSON_parse_def validate_def)
next
  show "\<forall>c1 e. init c1 \<noteq> Inl e"
    by (simp add: init_def split: sum.splits)
qed

theorem init_recovers_undecodable_witness:
  "init \<lparr>items = [product ''x'' ''Widget'' ''10'' \<lparr>quantity := Num 2\<rparr>], storage = BadText\<rparr>
     = Inr \<lparr>items = [], storage = BadText\<rparr>
   \<and> init \<lparr>items = [product ''x'' ''Widget'' ''10'' \<lparr>quantity := Num 2\<rparr>],
            storage = JsonText NotArray\<rparr>
     = Inr \<lparr>items = [], storage = JsonText NotArray\<rparr>
   \<and> init (page_load EmptyText) = Inr \<lparr>items = [], storage = EmptyText\<rparr>"
  using
    init_recovers_undecodable
      [of "\<lparr>items = [product ''x'' ''Widget'' ''10'' \<lparr>quantity := Num 2\<rparr>], storage = BadText\<rparr>"
          EmptyText]
    init_recovers_undecodable
      [of "\<lparr>items = [product ''x'' ''Widget'' ''10'' \<lparr>quantity := Num 2\<rparr>],
            storage = JsonText NotArray\<rparr>" EmptyText]
  by simp

subsection \<open>Changing a quantity\<close>

lemma find_Some_if_ex:
  "\<exists>it \<in> set xs. P it \<Longrightarrow> \<exists>y. List.find P xs = Some y"
  by (induction xs) auto

lemma foldl_radix_nonneg:
  "0 \<le> r \<Longrightarrow> 0 \<le> a \<Longrightarrow> 0 \<le> foldl (\<lambda>acc c. acc * r + digit_val c) a ds"
  by (induction ds arbitrary: a) (simp_all add: digit_val_nonneg)

lemma radix_value_nonneg: "0 \<le> r \<Longrightarrow> 0 \<le> radix_value r ds"
  by (simp add: radix_value_def foldl_radix_nonneg)

lemma parseInt_string_minus:
  assumes "takeWhile (radix_digit 10) u \<noteq> []" "take 2 u \<noteq> ''0x''" "take 2 u \<noteq> ''0X''"
  shows "parseInt_string (CHR ''-'' # u) = Num (- radix_value 10 (takeWhile (radix_digit 10) u))"
proof -
  have sp: "dropWhile is_space (CHR ''-'' # u) = CHR ''-'' # u"
    by (simp add: is_space_def)
  have a: "take 1 (CHR ''-'' # u) = ''-''" by simp
  have b: "drop 1 (CHR ''-'' # u) = u" by simp
  show ?thesis
    unfolding parseInt_string_def Let_def sp a b
    apply (simp only: if_True if_False simp_thms assms(1))
    apply simp
    using assms by blast
qed

lemma number_form_parts:
  assumes "number_form u"
  shows "int_part u \<noteq> []" "exponent_form (after_frac u)"
  using assms unfolding number_form_def by blast+

lemma take_two:
  assumes "take 2 u = [a, b]"
  shows "\<exists>r. u = a # b # r"
proof (cases u)
  case Nil
  with assms show ?thesis by simp
next
  case outer: (Cons a' v)
  show ?thesis
  proof (cases v)
    case Nil
    with outer assms show ?thesis by simp
  next
    case (Cons b' r)
    with outer assms show ?thesis by simp
  qed
qed

lemma exponent_form_head:
  assumes "exponent_form (x # r)"
  shows "x = CHR ''e''"
proof -
  from assms have "take 1 (x # r) = ''e''"
    unfolding exponent_form_def by blast
  then show ?thesis by simp
qed

lemma number_form_digits:
  assumes "number_form u"
  shows "takeWhile (radix_digit 10) u \<noteq> [] \<and> take 2 u \<noteq> ''0x'' \<and> take 2 u \<noteq> ''0X''"
proof -
  have ip: "takeWhile (radix_digit 10) u \<noteq> []"
    using number_form_parts(1) [OF assms] unfolding int_part_def .
  have ef: "exponent_form (after_frac u)"
    by (rule number_form_parts(2) [OF assms])
  have z: "radix_digit 10 CHR ''0''" by (simp add: radix_digit_def digit_of_def)
  have no: "take 2 u \<noteq> [CHR ''0'', x]"
    if nx: "\<not> radix_digit 10 x" and xd: "x \<noteq> CHR ''.''" and xe: "x \<noteq> CHR ''e''" for x
  proof
    assume t: "take 2 u = [CHR ''0'', x]"
    from take_two [OF t] obtain r where ur: "u = CHR ''0'' # x # r" ..
    have r1: "after_int u = x # r" unfolding ur after_int_def using nx z by simp
    have nd: "\<not> has_dot u" unfolding has_dot_def r1 using xd by simp
    have "after_frac u = x # r" unfolding after_frac_def using nd r1 by simp
    with ef have "x = CHR ''e''" using exponent_form_head by simp
    with xe show False by simp
  qed
  have "take 2 u \<noteq> ''0x''"
    by (rule no) (simp_all add: radix_digit_def digit_of_def)
  moreover have "take 2 u \<noteq> ''0X''"
    by (rule no) (simp_all add: radix_digit_def digit_of_def)
  ultimately show ?thesis using ip by blast
qed

lemma float_text_minus:
  assumes "float_text (CHR ''-'' # u)" "u \<noteq> ''Infinity''"
  shows "number_form u"
proof -
  have a: "take 1 (CHR ''-'' # u) = ''-''" by simp
  have b: "drop 1 (CHR ''-'' # u) = u" by simp
  from assms(1) have "u = ''Infinity'' \<or> number_form u"
    unfolding float_text_def Let_def a b by (simp only: simp_thms if_True)
  then show ?thesis
  proof
    assume "u = ''Infinity''"
    with assms(2) show ?thesis by (rule notE)
  next
    assume "number_form u"
    then show ?thesis .
  qed
qed

lemma parseInt_negative_float:
  assumes "float_text t" "take 1 t = ''-''" "t \<noteq> ''-Infinity''"
  shows "\<exists>m. parseInt (Float t) = Num m \<and> m \<le> 0"
proof -
  from assms(2) obtain u where t: "t = CHR ''-'' # u" by (cases t) simp_all
  from assms(3) have "u \<noteq> ''Infinity''" unfolding t by simp
  with assms(1) have "number_form u" unfolding t by (rule float_text_minus)
  from number_form_digits [OF this]
  have "parseInt_string (CHR ''-'' # u) = Num (- radix_value 10 (takeWhile (radix_digit 10) u))"
    by (intro parseInt_string_minus) simp_all
  then have "parseInt (Float t) = Num (- radix_value 10 (takeWhile (radix_digit 10) u))"
    by (simp add: parseInt_def t)
  moreover have "0 \<le> radix_value 10 (takeWhile (radix_digit 10) u)"
    by (rule radix_value_nonneg) simp
  ultimately show ?thesis by simp
qed

text \<open>
  Claim C5, amended. On a cart that holds an item with id \<open>x\<close>,
  \<^verbatim>\<open>updateQuantity(x, q)\<close> with a finite number \<open>q \<le> 0\<close>, an integer
  or a negative fraction, leaves the item list and the storage exactly as
  \<^verbatim>\<open>remove(x)\<close> does.
\<close>

theorem updateQuantity_nonpositive_is_remove:
  assumes "\<exists>it \<in> set (items c). strict_eq (id' it) x"
  shows "(n \<le> 0 \<longrightarrow> updateQuantity x (Num n) c = remove x c)
     \<and> (float_text t \<and> take 1 t = ''-'' \<and> t \<noteq> ''-Infinity''
          \<longrightarrow> updateQuantity x (Float t) c = remove x c)"
proof (intro conjI impI)
  obtain y where f: "List.find (\<lambda>it. strict_eq (id' it) x) (items c) = Some y"
    using find_Some_if_ex [OF assms] by blast
  {
    assume "n \<le> 0"
    from parseInt_Num_nonpositive [OF this]
    obtain m where "parseInt (Num n) = Num m" "m \<le> 0" by (elim exE conjE)
    with f show "updateQuantity x (Num n) c = remove x c"
      by (simp add: updateQuantity_def)
  }
  {
    assume a: "float_text t \<and> take 1 t = ''-'' \<and> t \<noteq> ''-Infinity''"
    from a have a1: "float_text t" by (rule conjunct1)
    from a have a2: "take 1 t = ''-'' \<and> t \<noteq> ''-Infinity''" by (rule conjunct2)
    from parseInt_negative_float [OF a1 conjunct1 [OF a2] conjunct2 [OF a2]]
    obtain m where "parseInt (Float t) = Num m" "m \<le> 0" by (elim exE conjE)
    with f show "updateQuantity x (Float t) c = remove x c"
      by (simp add: updateQuantity_def)
  }
qed

theorem updateQuantity_nonpositive_is_remove_witness:
  "updateQuantity (Str ''x'') (Num 0)
     \<lparr>items = [product ''x'' ''Widget'' ''10'' \<lparr>quantity := Num 2\<rparr>], storage = NoEntry\<rparr>
   = remove (Str ''x'')
     \<lparr>items = [product ''x'' ''Widget'' ''10'' \<lparr>quantity := Num 2\<rparr>], storage = NoEntry\<rparr>
   \<and> updateQuantity (Str ''x'') (Float ''-0.5'')
     \<lparr>items = [product ''x'' ''Widget'' ''10'' \<lparr>quantity := Num 2\<rparr>], storage = NoEntry\<rparr>
   = remove (Str ''x'')
     \<lparr>items = [product ''x'' ''Widget'' ''10'' \<lparr>quantity := Num 2\<rparr>], storage = NoEntry\<rparr>
   \<and> remove (Str ''x'')
       \<lparr>items = [product ''x'' ''Widget'' ''10'' \<lparr>quantity := Num 2\<rparr>], storage = NoEntry\<rparr>
     = \<lparr>items = [], storage = JsonText (Array [])\<rparr>"
proof -
  have ft: "float_text ''-0.5''" by code_simp
  show ?thesis
    using updateQuantity_nonpositive_is_remove
      [of "\<lparr>items = [product ''x'' ''Widget'' ''10'' \<lparr>quantity := Num 2\<rparr>], storage = NoEntry\<rparr>"
          "Str ''x''" 0 "''-0.5''"] ft
    by (simp add: product_def strict_eq_def remove_def save_def)
qed

text \<open>
  Claim C5 as stated covers every value \<open>q \<le> 0\<close>. For \<^verbatim>\<open>-Infinity\<close>, and for
  \<^verbatim>\<open>null\<close> (which \<^verbatim>\<open><=\<close> takes as 0), \<^verbatim>\<open>parseInt\<close> gives NaN:
  \<^verbatim>\<open>updateQuantity\<close> then keeps the item, with NaN as its quantity, where
  \<^verbatim>\<open>remove\<close> empties the list.
\<close>

theorem updateQuantity_nonfinite_counterexample:
  "updateQuantity (Str ''x'') (Float ''-Infinity'')
     \<lparr>items = [product ''x'' ''Widget'' ''10'' \<lparr>quantity := Num 2\<rparr>], storage = NoEntry\<rparr>
   = \<lparr>items = [product ''x'' ''Widget'' ''10'' \<lparr>quantity := NaN\<rparr>],
      storage = JsonText (Array [Object (product ''x'' ''Widget'' ''10'' \<lparr>quantity := Null\<rparr>)])\<rparr>
   \<and> to_number Null = Some 0
   \<and> updateQuantity (Str ''x'') Null
     \<lparr>items = [product ''x'' ''Widget'' ''10'' \<lparr>quantity := Num 2\<rparr>], storage = NoEntry\<rparr>
   = \<lparr>items = [product ''x'' ''Widget'' ''10'' \<lparr>quantity := NaN\<rparr>],
      storage = JsonText (Array [Object (product ''x'' ''Widget'' ''10'' \<lparr>quantity := Null\<rparr>)])\<rparr>
   \<and> remove (Str ''x'')
       \<lparr>items = [product ''x'' ''Widget'' ''10'' \<lparr>quantity := Num 2\<rparr>], storage = NoEntry\<rparr>
     = \<lparr>items = [], storage = JsonText (Array [])\<rparr>
   \<and> updateQuantity (Str ''x'') (Float ''-Infinity'')
       \<lparr>items = [product ''x'' ''Widget'' ''10'' \<lparr>quantity := Num 2\<rparr>], storage = NoEntry\<rparr>
     \<noteq> remove (Str ''x'')
       \<lparr>items = [product ''x'' ''Widget'' ''10'' \<lparr>quantity := Num 2\<rparr>], storage = NoEntry\<rparr>"
  by code_simp

text \<open>
  Claim C2 says that \<^verbatim>\<open>updateQuantity\<close> with a value that parses to NaN changes
  neither the item list nor the storage. The code has no guard for NaN:
  \<^verbatim>\<open>newQty <= 0\<close> is false on it, so the \<^verbatim>\<open>else\<close> branch stores NaN as
  the quantity and saves, and the saved text carries \<^verbatim>\<open>null\<close>. Here on a cart
  of one item with quantity 2.
\<close>

theorem updateQuantity_NaN_stores_NaN:
  "updateQuantity (Str ''x'') NaN
     \<lparr>items = [product ''x'' ''Widget'' ''10'' \<lparr>quantity := Num 2\<rparr>],
      storage = JsonText (Array [Object (product ''x'' ''Widget'' ''10'' \<lparr>quantity := Num 2\<rparr>)])\<rparr>
   = \<lparr>items = [product ''x'' ''Widget'' ''10'' \<lparr>quantity := NaN\<rparr>],
      storage = JsonText (Array [Object (product ''x'' ''Widget'' ''10'' \<lparr>quantity := Null\<rparr>)])\<rparr>"
  by (simp add: updateQuantity_def parseInt_NaN product_def strict_eq_def save_def
      json_item_def json_value_def)

text \<open>
  Claim C3 says that every operation keeps every quantity a positive integer once the
  list has been normalized. Loading a stored list of one item with quantity 2 gives a
  normalized cart; emptying the quantity input of that item then fires the change
  handler with the empty text, and the item's quantity is NaN afterwards.
\<close>

theorem quantity_invariant_broken_by_NaN:
  "init (page_load (JsonText (Array [Object (product ''x'' ''Widget'' ''10'' \<lparr>quantity := Num 2\<rparr>)])))
     = Inr \<lparr>items = [product ''x'' ''Widget'' ''10'' \<lparr>quantity := Num 2\<rparr>],
            storage = JsonText (Array [Object (product ''x'' ''Widget'' ''10'' \<lparr>quantity := Num 2\<rparr>)])\<rparr>
   \<and> map quantity (items (change_handler (Str ''x'') []
         \<lparr>items = [product ''x'' ''Widget'' ''10'' \<lparr>quantity := Num 2\<rparr>],
          storage = JsonText (Array [Object (product ''x'' ''Widget'' ''10'' \<lparr>quantity := Num 2\<rparr>)])\<rparr>))
     = [NaN]"
  by code_simp

subsection \<open>Adding\<close>

lemma find_None_if_all:
  "\<forall>it \<in> set xs. \<not> P it \<Longrightarrow> List.find P xs = None"
  by (induction xs) auto

lemma find_in_middle:
  "\<forall>it \<in> set pre. \<not> P it \<Longrightarrow> P e \<Longrightarrow> List.find P (pre @ e # post) = Some e"
  by (induction pre) auto

lemma update_first_in_middle:
  "\<forall>it \<in> set pre. \<not> P it \<Longrightarrow> P e \<Longrightarrow> update_first P f (pre @ e # post) = pre @ f e # post"
  by (induction pre) auto

lemma truthy_strict_eq: "truthy v \<Longrightarrow> strict_eq v v"
  by (cases v) (simp_all add: strict_eq_def)

lemma id_coerced: "id' (coerced p) = id' p"
  by (simp add: coerced_def)

lemma add_falsy: "\<not> truthy (id' p) \<Longrightarrow> add p c = (p, c)"
  by (simp add: add_def)

lemma add_existing:
  assumes "truthy (id' p)" "items c = pre @ e # post"
    "\<forall>it \<in> set pre. \<not> strict_eq (id' it) (id' p)" "strict_eq (id' e) (id' p)"
  shows "add p c = (coerced p, save (c\<lparr>items := pre @ e\<lparr>quantity := js_plus (quantity e) (Num 1)\<rparr> # post\<rparr>))"
  using assms(1,2) find_in_middle [of pre "\<lambda>it. strict_eq (id' it) (id' p)" e post, OF assms(3,4)]
    update_first_in_middle [of pre "\<lambda>it. strict_eq (id' it) (id' p)" e _ post, OF assms(3,4)]
  by (simp add: add_def coerced_def Let_def)

lemma add_new:
  assumes "truthy (id' p)" "\<forall>it \<in> set (items c). \<not> strict_eq (id' it) (id' p)"
  shows "add p c = (coerced p, save (c\<lparr>items := items c @ [coerced p\<lparr>quantity := Num 1\<rparr>]\<rparr>))"
  using assms(1) find_None_if_all [of "items c" "\<lambda>it. strict_eq (id' it) (id' p)", OF assms(2)]
  by (simp add: add_def coerced_def Let_def)

lemma items_save [simp]: "items (save c) = items c"
  by (simp add: save_def)

lemma js_plus_Num: "js_plus (Num a) (Num b) = Num (a + b)"
  by (simp add: js_plus_def)

text \<open>
  Claim C6, amended. \<^verbatim>\<open>add(product)\<close> changes nothing when \<^verbatim>\<open>product.id\<close> is
  falsy. When the list holds an item with the same id (the first such, \<open>e\<close>) whose
  quantity is an integer \<open>n\<close> with \<open>-2^53 \<le> n < 2^53\<close>, that item's quantity becomes
  \<open>n + 1\<close> and the list keeps its length and order. When no item has the id, the
  product as \<^verbatim>\<open>add\<close> leaves it is appended with quantity 1. Hence two calls with
  the same id on an empty cart give one item with quantity 2.
\<close>

theorem add_cases:
  "(\<not> truthy (id' p) \<longrightarrow> add p c = (p, c))
   \<and> (truthy (id' p) \<and> items c = pre @ e # post
        \<and> (\<forall>it \<in> set pre. \<not> strict_eq (id' it) (id' p)) \<and> strict_eq (id' e) (id' p)
        \<and> quantity e = Num n \<and> - 9007199254740992 \<le> n \<and> n < 9007199254740992
      \<longrightarrow> items (snd (add p c)) = pre @ e\<lparr>quantity := Num (n + 1)\<rparr> # post)
   \<and> (truthy (id' p) \<and> (\<forall>it \<in> set (items c). \<not> strict_eq (id' it) (id' p))
      \<longrightarrow> items (snd (add p c)) = items c @ [(fst (add p c))\<lparr>quantity := Num 1\<rparr>])
   \<and> (truthy (id' p) \<and> id' p2 = id' p
      \<longrightarrow> items (snd (add p2 (snd (add p \<lparr>items = [], storage = st\<rparr>))))
            = [(fst (add p \<lparr>items = [], storage = st\<rparr>))\<lparr>quantity := Num 2\<rparr>])"
proof (intro conjI impI)
  assume "\<not> truthy (id' p)"
  then show "add p c = (p, c)" by (rule add_falsy)
next
  assume a: "truthy (id' p) \<and> items c = pre @ e # post
        \<and> (\<forall>it \<in> set pre. \<not> strict_eq (id' it) (id' p)) \<and> strict_eq (id' e) (id' p)
        \<and> quantity e = Num n \<and> - 9007199254740992 \<le> n \<and> n < 9007199254740992"
  then have "add p c = (coerced p, save (c\<lparr>items := pre @ e\<lparr>quantity := js_plus (quantity e) (Num 1)\<rparr> # post\<rparr>))"
    by (intro add_existing) simp_all
  with a show "items (snd (add p c)) = pre @ e\<lparr>quantity := Num (n + 1)\<rparr> # post"
    by (simp add: js_plus_Num)
next
  assume a: "truthy (id' p) \<and> (\<forall>it \<in> set (items c). \<not> strict_eq (id' it) (id' p))"
  then have "add p c = (coerced p, save (c\<lparr>items := items c @ [coerced p\<lparr>quantity := Num 1\<rparr>]\<rparr>))"
    by (intro add_new) simp_all
  then show "items (snd (add p c)) = items c @ [(fst (add p c))\<lparr>quantity := Num 1\<rparr>]"
    by simp
next
  assume a: "truthy (id' p) \<and> id' p2 = id' p"
  let ?c0 = "\<lparr>items = [], storage = st\<rparr>"
  let ?e = "coerced p\<lparr>quantity := Num 1\<rparr>"
  have first: "add p ?c0 = (coerced p, save (?c0\<lparr>items := items ?c0 @ [?e]\<rparr>))"
    using a by (intro add_new) simp_all
  let ?c1 = "snd (add p ?c0)"
  have items1: "items ?c1 = [] @ ?e # []" using first by simp
  have eq: "strict_eq (id' ?e) (id' p2)"
    using a truthy_strict_eq [of "id' p"] by (simp add: id_coerced)
  have "add p2 ?c1 = (coerced p2, save (?c1\<lparr>items := [] @ ?e\<lparr>quantity := js_plus (quantity ?e) (Num 1)\<rparr> # []\<rparr>))"
    using a by (intro add_existing [OF _ items1 _ eq]) simp_all
  then show "items (snd (add p2 ?c1)) = [(fst (add p ?c0))\<lparr>quantity := Num 2\<rparr>]"
    using first by (simp add: js_plus_Num)
qed

theorem add_cases_witness:
  "add (product [] ''Widget'' ''10'') \<lparr>items = [], storage = NoEntry\<rparr>
     = (product [] ''Widget'' ''10'', \<lparr>items = [], storage = NoEntry\<rparr>)
   \<and> items (snd (add (product ''p1'' ''Widget'' ''10'')
        \<lparr>items = [product ''p0'' ''Bolt'' ''3'' \<lparr>quantity := Num 4\<rparr>,
                  product ''p1'' ''Widget'' ''10'' \<lparr>quantity := Num 7\<rparr>], storage = NoEntry\<rparr>))
     = [product ''p0'' ''Bolt'' ''3'' \<lparr>quantity := Num 4\<rparr>,
        product ''p1'' ''Widget'' ''10'' \<lparr>quantity := Num 8\<rparr>]
   \<and> items (snd (add (product ''p1'' ''Widget'' ''10'')
        \<lparr>items = [product ''p0'' ''Bolt'' ''3'' \<lparr>quantity := Num 4\<rparr>], storage = NoEntry\<rparr>))
     = [product ''p0'' ''Bolt'' ''3'' \<lparr>quantity := Num 4\<rparr>,
        product ''p1'' ''Widget'' ''10'' \<lparr>quantity := Num 1\<rparr>]
   \<and> items (snd (add (product ''p1'' ''Widget'' ''10'')
        (snd (add (product ''p1'' ''Widget'' ''10'') \<lparr>items = [], storage = NoEntry\<rparr>))))
     = [product ''p1'' ''Widget'' ''10'' \<lparr>quantity := Num 2\<rparr>]"
proof -
  let ?w = "product ''p1'' ''Widget'' ''10''"
  let ?b = "product ''p0'' ''Bolt'' ''3'' \<lparr>quantity := Num 4\<rparr>"
  have fst_w: "\<And>c. fst (add ?w c) = ?w"
    by (simp add: add_def product_def Let_def split: option.splits)
  have 1: "add (product [] ''Widget'' ''10'') \<lparr>items = [], storage = NoEntry\<rparr>
     = (product [] ''Widget'' ''10'', \<lparr>items = [], storage = NoEntry\<rparr>)"
    using add_cases [of "product [] ''Widget'' ''10''" "\<lparr>items = [], storage = NoEntry\<rparr>"]
    by (simp add: product_def)
  have 2: "items (snd (add ?w \<lparr>items = [?b, ?w\<lparr>quantity := Num 7\<rparr>], storage = NoEntry\<rparr>))
     = [?b, ?w\<lparr>quantity := Num 8\<rparr>]"
    using add_cases [of ?w "\<lparr>items = [?b, ?w\<lparr>quantity := Num 7\<rparr>], storage = NoEntry\<rparr>"
        "[?b]" "?w\<lparr>quantity := Num 7\<rparr>" "[]" 7]
    by (simp add: product_def strict_eq_def)
  have 3: "items (snd (add ?w \<lparr>items = [?b], storage = NoEntry\<rparr>)) = [?b, ?w\<lparr>quantity := Num 1\<rparr>]"
    using add_cases [of ?w "\<lparr>items = [?b], storage = NoEntry\<rparr>"] fst_w
    by (simp add: product_def strict_eq_def)
  have 4: "items (snd (add ?w (snd (add ?w \<lparr>items = [], storage = NoEntry\<rparr>))))
     = [?w\<lparr>quantity := Num 2\<rparr>]"
    using add_cases [of ?w _ _ _ _ _ ?w NoEntry] fst_w
    by (simp add: product_def)
  from 1 2 3 4 show ?thesis by simp
qed

text \<open>
  Claim C6 as stated has the quantity grow by exactly 1 whenever an item with the id
  exists. \<^verbatim>\<open>existingItem.quantity += 1\<close> adds 1 to whatever the quantity is. After
  \<^verbatim>\<open>updateQuantity("x", NaN)\<close> the quantity of the item is NaN, and
  \<^verbatim>\<open>add\<close> leaves it NaN. On a list that holds the text \<^verbatim>\<open>"2"\<close> as
  quantity the \<^verbatim>\<open>+=\<close> appends a character: the quantity becomes the text
  \<^verbatim>\<open>"21"\<close>.
\<close>

theorem add_does_not_increment_counterexample:
  "map quantity (items (updateQuantity (Str ''x'') NaN
       \<lparr>items = [product ''x'' ''Widget'' ''10'' \<lparr>quantity := Num 2\<rparr>], storage = NoEntry\<rparr>))
     = [NaN]
   \<and> map quantity (items (snd (add (product ''x'' ''Widget'' ''10'')
       (updateQuantity (Str ''x'') NaN
          \<lparr>items = [product ''x'' ''Widget'' ''10'' \<lparr>quantity := Num 2\<rparr>], storage = NoEntry\<rparr>))))
     = [NaN]
   \<and> map quantity (items (snd (add (product ''x'' ''Widget'' ''10'')
       \<lparr>items = [product ''x'' ''Widget'' ''10'' \<lparr>quantity := Str ''2''\<rparr>], storage = NoEntry\<rparr>)))
     = [Str ''21'']"
  by code_simp

text \<open>
  Claim C10, amended. The argument of \<^verbatim>\<open>add\<close> is an object of the caller's, not
  one of the objects of the list. When \<^verbatim>\<open>product.id\<close> is truthy and
  \<^verbatim>\<open>product.price\<close> is a truthy value that is not a string,
  \<^verbatim>\<open>add\<close> leaves the caller's object with its price replaced by the string
  form of that price and every other field as it was; the copy that enters the cart (when
  no item has the id yet) carries the string price. In every other case, a falsy id
  among them, \<^verbatim>\<open>add\<close> leaves the caller's object as it was, price included.
\<close>

theorem add_coerces_price_in_place:
  "(truthy (id' p) \<and> truthy (price p) \<and> \<not> is_string (price p) \<and> exact_number (price p)
      \<longrightarrow> fst (add p c) = p\<lparr>price := Str (to_string (price p))\<rparr>
          \<and> ((\<forall>it \<in> set (items c). \<not> strict_eq (id' it) (id' p)) \<longrightarrow>
               items (snd (add p c))
                 = items c @ [p\<lparr>price := Str (to_string (price p)), quantity := Num 1\<rparr>]))
   \<and> (truthy (id' p) \<and> (is_string (price p) \<or> \<not> truthy (price p)) \<longrightarrow> fst (add p c) = p)
   \<and> (\<not> truthy (id' p) \<longrightarrow> fst (add p c) = p)"
proof (intro conjI impI)
  assume a: "truthy (id' p) \<and> truthy (price p) \<and> \<not> is_string (price p) \<and> exact_number (price p)"
  then show "fst (add p c) = p\<lparr>price := Str (to_string (price p))\<rparr>"
    by (simp add: add_def Let_def split: option.splits)
next
  assume a: "truthy (id' p) \<and> truthy (price p) \<and> \<not> is_string (price p) \<and> exact_number (price p)"
  assume n: "\<forall>it \<in> set (items c). \<not> strict_eq (id' it) (id' p)"
  from a have t: "truthy (id' p)" by simp
  from add_new [OF t n] a
  show "items (snd (add p c))
      = items c @ [p\<lparr>price := Str (to_string (price p)), quantity := Num 1\<rparr>]"
    by (simp add: coerced_def)
next
  assume "truthy (id' p) \<and> (is_string (price p) \<or> \<not> truthy (price p))"
  then show "fst (add p c) = p"
    by (auto simp: add_def Let_def split: option.splits)
next
  assume "\<not> truthy (id' p)"
  then show "fst (add p c) = p" by (simp add: add_falsy)
qed

theorem add_coerces_price_in_place_witness:
  "fst (add (product ''p1'' ''Widget'' ''10'' \<lparr>price := Num 10\<rparr>) \<lparr>items = [], storage = NoEntry\<rparr>)
     = product ''p1'' ''Widget'' ''10''
   \<and> items (snd (add (product ''p1'' ''Widget'' ''10'' \<lparr>price := Num 10\<rparr>)
        \<lparr>items = [], storage = NoEntry\<rparr>))
     = [product ''p1'' ''Widget'' ''10'' \<lparr>quantity := Num 1\<rparr>]
   \<and> fst (add (product ''p2'' ''Anvil'' [] \<lparr>price := Float ''10.5''\<rparr>)
        \<lparr>items = [], storage = NoEntry\<rparr>)
     = product ''p2'' ''Anvil'' ''10.5''
   \<and> fst (add (product ''p3'' ''Bolt'' ''3'') \<lparr>items = [], storage = NoEntry\<rparr>)
     = product ''p3'' ''Bolt'' ''3''
   \<and> fst (add (product ''p3'' ''Bolt'' ''3'' \<lparr>price := Num 0\<rparr>) \<lparr>items = [], storage = NoEntry\<rparr>)
     = product ''p3'' ''Bolt'' ''3'' \<lparr>price := Num 0\<rparr>
   \<and> fst (add (product [] ''Nail'' ''1'' \<lparr>price := Num 7\<rparr>) \<lparr>items = [], storage = NoEntry\<rparr>)
     = product [] ''Nail'' ''1'' \<lparr>price := Num 7\<rparr>"
proof -
  let ?c = "\<lparr>items = [], storage = NoEntry\<rparr>"
  have s: "number_text 10 = ''10''" by code_simp
  have f: "float_text ''10.5''" by code_simp
  have 1: "fst (add (product ''p1'' ''Widget'' ''10'' \<lparr>price := Num 10\<rparr>) ?c)
             = product ''p1'' ''Widget'' ''10''
           \<and> items (snd (add (product ''p1'' ''Widget'' ''10'' \<lparr>price := Num 10\<rparr>) ?c))
             = [product ''p1'' ''Widget'' ''10'' \<lparr>quantity := Num 1\<rparr>]"
    using add_coerces_price_in_place [of "product ''p1'' ''Widget'' ''10'' \<lparr>price := Num 10\<rparr>" ?c]
    by (simp add: product_def s exact_number_def)
  have 2: "fst (add (product ''p2'' ''Anvil'' [] \<lparr>price := Float ''10.5''\<rparr>) ?c)
             = product ''p2'' ''Anvil'' ''10.5''"
    using add_coerces_price_in_place [of "product ''p2'' ''Anvil'' [] \<lparr>price := Float ''10.5''\<rparr>" ?c]
    by (simp add: product_def f exact_number_def)
  have 3: "fst (add (product ''p3'' ''Bolt'' ''3'') ?c) = product ''p3'' ''Bolt'' ''3''"
    using add_coerces_price_in_place [of "product ''p3'' ''Bolt'' ''3''" ?c]
    by (simp add: product_def)
  have 4: "fst (add (product ''p3'' ''Bolt'' ''3'' \<lparr>price := Num 0\<rparr>) ?c)
             = product ''p3'' ''Bolt'' ''3'' \<lparr>price := Num 0\<rparr>"
    using add_coerces_price_in_place [of "product ''p3'' ''Bolt'' ''3'' \<lparr>price := Num 0\<rparr>" ?c]
    by (simp add: product_def)
  have 5: "fst (add (product [] ''Nail'' ''1'' \<lparr>price := Num 7\<rparr>) ?c)
             = product [] ''Nail'' ''1'' \<lparr>price := Num 7\<rparr>"
    using add_coerces_price_in_place [of "product [] ''Nail'' ''1'' \<lparr>price := Num 7\<rparr>" ?c]
    by (simp add: product_def)
  from 1 2 3 4 5 show ?thesis by simp
qed

text \<open>
  Claim C10 as stated has no condition on the id. With a falsy id
  \<^verbatim>\<open>add\<close> returns at its first line, before the price is touched: the
  argument keeps its numeric price.
\<close>

theorem add_falsy_id_keeps_price_counterexample:
  "truthy (price (product [] ''Widget'' ''10'' \<lparr>price := Num 10\<rparr>))
   \<and> \<not> is_string (price (product [] ''Widget'' ''10'' \<lparr>price := Num 10\<rparr>))
   \<and> price (fst (add (product [] ''Widget'' ''10'' \<lparr>price := Num 10\<rparr>)
        \<lparr>items = [], storage = NoEntry\<rparr>)) = Num 10"
  by (simp add: add_def product_def)

subsection \<open>The total\<close>

lemma foldl_total_None:
  "foldl (\<lambda>total it. num_add total (num_mult (Some (item_price it)) (to_number (quantity_or_one it))))
     None xs = None"
  by (induction xs) (simp_all add: num_add_def)

lemma foldl_total:
  "foldl (\<lambda>total it. num_add total (num_mult (Some (item_price it)) (to_number (quantity_or_one it))))
     (Some a) xs
   = (if list_all (\<lambda>it. counted it \<noteq> None) xs
      then Some (a + (\<Sum>it\<leftarrow>xs. item_price it * the (counted it))) else None)"
proof (induction xs arbitrary: a)
  case Nil
  then show ?case by simp
next
  case (Cons x xs)
  show ?case
  proof (cases "counted x")
    case None
    then have "num_add (Some a) (num_mult (Some (item_price x)) (to_number (quantity_or_one x)))
        = None"
      by (simp add: counted_def num_add_def num_mult_def)
    with None show ?thesis by (simp add: foldl_total_None)
  next
    case (Some f)
    then have "num_add (Some a) (num_mult (Some (item_price x)) (to_number (quantity_or_one x)))
        = Some (a + item_price x * f)"
      by (simp add: counted_def num_add_def num_mult_def)
    with Some show ?thesis by (simp add: Cons.IH add.assoc)
  qed
qed

text \<open>
  Claim C7, amended. \<^verbatim>\<open>getTotal\<close> only reads the cart and returns a number.
  The number is the sum over the items of the parsed price (\<open>item_price\<close>: the text
  stripped of all but digits and dots, parsed, 0 when unparsable) times the number that
  counts for the quantity (\<open>counted\<close>): 1 whenever the quantity is falsy (missing, null,
  0, NaN, the empty text), the quantity itself when it is an integer other than 0. When
  some quantity counts as no finite number, the total is no finite number. This is stated
  where the doubles round nothing (\<open>unrounded\<close>). On the list of the two items with
  price \<^verbatim>\<open>"$10.50"\<close>, quantity 2 and price \<^verbatim>\<open>"5"\<close>, quantity 1 the total
  is 26.
\<close>

theorem getTotal_is_sum:
  "(unrounded 0 (items c) \<and> list_all (\<lambda>it. counted it \<noteq> None) (items c)
      \<longrightarrow> getTotal c = Some (\<Sum>it\<leftarrow>items c. item_price it * the (counted it)))
   \<and> (unrounded 0 (items c) \<and> \<not> list_all (\<lambda>it. counted it \<noteq> None) (items c)
      \<longrightarrow> getTotal c = None)
   \<and> (\<not> truthy (quantity it) \<longrightarrow> counted it = Some 1)
   \<and> (quantity it = Num n \<and> n \<noteq> 0 \<longrightarrow> counted it = Some (of_int n))
   \<and> getTotal
        \<lparr>items = [\<lparr>id' = Undefined, name = Undefined, price = Str ''$10.50'', quantity = Num 2,
                    image' = Undefined, category = Undefined\<rparr>,
                  \<lparr>id' = Undefined, name = Undefined, price = Str ''5'', quantity = Num 1,
                    image' = Undefined, category = Undefined\<rparr>],
         storage = st\<rparr> = Some 26"
proof (intro conjI impI)
  assume "unrounded 0 (items c) \<and> list_all (\<lambda>it. counted it \<noteq> None) (items c)"
  then show "getTotal c = Some (\<Sum>it\<leftarrow>items c. item_price it * the (counted it))"
    by (simp add: getTotal_def foldl_total)
next
  assume "unrounded 0 (items c) \<and> \<not> list_all (\<lambda>it. counted it \<noteq> None) (items c)"
  then show "getTotal c = None"
    by (simp add: getTotal_def foldl_total)
next
  assume "\<not> truthy (quantity it)"
  then show "counted it = Some 1"
    by (simp add: counted_def quantity_or_one_def)
next
  assume "quantity it = Num n \<and> n \<noteq> 0"
  then show "counted it = Some (of_int n)"
    by (simp add: counted_def quantity_or_one_def)
next
  have p1: "item_price \<lparr>id' = Undefined, name = Undefined, price = Str ''$10.50'', quantity = Num 2,
                    image' = Undefined, category = Undefined\<rparr> = 21 / 2"
    by code_simp
  have p2: "item_price \<lparr>id' = Undefined, name = Undefined, price = Str ''5'', quantity = Num 1,
                    image' = Undefined, category = Undefined\<rparr> = 5"
    by code_simp
  show "getTotal
        \<lparr>items = [\<lparr>id' = Undefined, name = Undefined, price = Str ''$10.50'', quantity = Num 2,
                    image' = Undefined, category = Undefined\<rparr>,
                  \<lparr>id' = Undefined, name = Undefined, price = Str ''5'', quantity = Num 1,
                    image' = Undefined, category = Undefined\<rparr>],
         storage = st\<rparr> = Some 26"
    by (simp add: getTotal_def p1 p2 num_add_def num_mult_def quantity_or_one_def)
qed

theorem getTotal_is_sum_witness:
  "getTotal \<lparr>items = [product ''a'' ''Anvil'' ''LKR 1,250.75'' \<lparr>quantity := Num 4\<rparr>,
                      product ''b'' ''Bolt'' ''3'',
                      product ''c'' ''Nail'' ''0.5'' \<lparr>quantity := Num 0\<rparr>], storage = NoEntry\<rparr>
     = Some (10013 / 2)
   \<and> getTotal \<lparr>items = [product ''a'' ''Anvil'' ''LKR 1,250.75'' \<lparr>quantity := Num 4\<rparr>,
                        product ''b'' ''Bolt'' ''3'' \<lparr>quantity := Str ''many''\<rparr>], storage = NoEntry\<rparr>
     = None
   \<and> counted (product ''b'' ''Bolt'' ''3'') = Some 1
   \<and> counted (product ''a'' ''Anvil'' ''LKR 1,250.75'' \<lparr>quantity := Num 4\<rparr>) = Some 4"
proof -
  let ?a = "product ''a'' ''Anvil'' ''LKR 1,250.75'' \<lparr>quantity := Num 4\<rparr>"
  let ?b = "product ''b'' ''Bolt'' ''3''"
  let ?c = "product ''c'' ''Nail'' ''0.5'' \<lparr>quantity := Num 0\<rparr>"
  let ?m = "product ''b'' ''Bolt'' ''3'' \<lparr>quantity := Str ''many''\<rparr>"
  have u1: "unrounded 0 [?a, ?b, ?c]" by code_simp
  have u2: "unrounded 0 [?a, ?m]" by code_simp
  have k: "counted ?a = Some 4" "counted ?b = Some 1" "counted ?c = Some 1" "counted ?m = None"
    by code_simp+
  have p: "item_price ?a = 5003 / 4" "item_price ?b = 3" "item_price ?c = 1 / 2"
    by code_simp+
  have 1: "getTotal \<lparr>items = [?a, ?b, ?c], storage = NoEntry\<rparr> = Some (10013 / 2)"
    using getTotal_is_sum [of "\<lparr>items = [?a, ?b, ?c], storage = NoEntry\<rparr>"] u1
    by (simp add: k p)
  have 2: "getTotal \<lparr>items = [?a, ?m], storage = NoEntry\<rparr> = None"
    using getTotal_is_sum [of "\<lparr>items = [?a, ?m], storage = NoEntry\<rparr>"] u2
    by (simp add: k)
  have 3: "counted ?b = Some 1"
    using getTotal_is_sum [of _ ?b] by (simp add: product_def)
  have 4: "counted ?a = Some 4"
    using getTotal_is_sum [of _ ?a 4] by (simp add: product_def)
  from 1 2 3 4 show ?thesis by simp
qed

text \<open>
  Claim C7 as stated multiplies by the item's quantity and takes 1 only when the quantity
  is missing. \<^verbatim>\<open>item.quantity || 1\<close> takes 1 for every falsy quantity. With the
  quantity 0 the item counts its price once, where price times quantity is 0. After
  \<^verbatim>\<open>updateQuantity("x", NaN)\<close> the quantity is NaN and the item counts its price
  once, where price times quantity is not a number.
\<close>

theorem getTotal_counts_falsy_quantity_counterexample:
  "getTotal \<lparr>items = [product ''x'' ''Widget'' ''10'' \<lparr>quantity := Num 0\<rparr>], storage = NoEntry\<rparr>
     = Some 10
   \<and> num_mult (Some (item_price (product ''x'' ''Widget'' ''10'' \<lparr>quantity := Num 0\<rparr>)))
       (to_number (quantity (product ''x'' ''Widget'' ''10'' \<lparr>quantity := Num 0\<rparr>))) = Some 0
   \<and> items (updateQuantity (Str ''x'') NaN
       \<lparr>items = [product ''x'' ''Widget'' ''10'' \<lparr>quantity := Num 2\<rparr>], storage = NoEntry\<rparr>)
     = [product ''x'' ''Widget'' ''10'' \<lparr>quantity := NaN\<rparr>]
   \<and> getTotal (updateQuantity (Str ''x'') NaN
       \<lparr>items = [product ''x'' ''Widget'' ''10'' \<lparr>quantity := Num 2\<rparr>], storage = NoEntry\<rparr>)
     = Some 10
   \<and> num_mult (Some (item_price (product ''x'' ''Widget'' ''10'' \<lparr>quantity := NaN\<rparr>)))
       (to_number (quantity (product ''x'' ''Widget'' ''10'' \<lparr>quantity := NaN\<rparr>))) = None"
  by code_simp

subsection \<open>The normalization pass\<close>

lemma kept_id: "kept it \<Longrightarrow> id' it = Str (key it) \<and> key it \<noteq> []"
  by (cases "id' it") (simp_all add: kept_def key_def)

lemma filter_items_kept: "list_all kept (filter_items es)"
  by (induction es rule: filter_items.induct) (simp_all add: kept_def)

lemma filter_items_Object: "list_all kept xs \<Longrightarrow> filter_items (map Object xs) = xs"
  by (induction xs) (simp_all add: kept_def)

lemma normal_quantity_pos: "1 \<le> normal_quantity q"
  by (simp add: normal_quantity_def split: jsval.splits)

lemma normal_quantity_Num: "1 \<le> n \<Longrightarrow> n < 10 ^ 21 \<Longrightarrow> normal_quantity (Num n) = n"
  by (simp add: normal_quantity_def parseInt_Num)

lemma is_string_price_string: "is_string (price_string p)"
  by (simp add: price_string_def)

lemma price_string_Str: "is_string p \<Longrightarrow> price_string p = p"
  by (simp add: price_string_def)

lemma keys_merge_item:
  "map fst (merge_item u it) =
     (if key it \<in> set (map fst u) \<or> key it \<in> set object_prototype_keys then map fst u
      else map fst u @ [key it])"
  by (auto simp: merge_item_def key_def Let_def split_beta)

lemma keys_fold:
  "map fst (foldl merge_item u xs) =
     map fst u @ firsts_from (set (map fst u)) (filter (\<lambda>k. k \<notin> set object_prototype_keys) (map key xs))"
proof (induction xs arbitrary: u)
  case Nil
  then show ?case by simp
next
  case (Cons x xs)
  show ?case
    by (simp add: Cons.IH keys_merge_item insert_absorb)
qed

lemma distinct_merge_item: "distinct (map fst u) \<Longrightarrow> distinct (map fst (merge_item u it))"
  by (simp add: keys_merge_item)

lemma distinct_fold: "distinct (map fst u) \<Longrightarrow> distinct (map fst (foldl merge_item u xs))"
  by (induction xs arbitrary: u) (simp_all add: distinct_merge_item)

lemma filed_merge_item:
  assumes "list_all filed u" "kept it"
  shows "list_all filed (merge_item u it)"
proof -
  have new: "filed (key it, it\<lparr>quantity := Num (nq it), price := price_string (price it)\<rparr>)"
    if "key it \<notin> set object_prototype_keys"
    using that kept_id [OF assms(2)] assms(2) normal_quantity_pos [of "quantity it"]
    by (simp add: filed_def is_string_price_string kept_def)
  have upd: "filed (k, e\<lparr>quantity := js_plus (quantity e) (Num (nq it))\<rparr>)" if "filed (k, e)" for k e
    using that normal_quantity_pos [of "quantity it"]
    by (auto simp: filed_def js_plus_Num)
  show ?thesis
    using assms(1) new upd
    by (auto simp: merge_item_def Let_def list_all_iff key_def)
qed

lemma filed_fold:
  "list_all filed u \<Longrightarrow> list_all kept xs \<Longrightarrow> list_all filed (foldl merge_item u xs)"
  by (induction xs arbitrary: u) (simp_all add: filed_merge_item)








lemma object_values_again:
  "object_values (sort_key (\<lambda>p. radix_value 10 (fst p)) (filter (\<lambda>p. array_index (fst p)) u)
                  @ filter (\<lambda>p. \<not> array_index (fst p)) u)
   = object_values u"
proof -
  let ?f = "\<lambda>p::string \<times> item. radix_value 10 (fst p)"
  let ?Q = "\<lambda>p::string \<times> item. array_index (fst p)"
  have "sort_key ?f (sort_key ?f (filter ?Q u)) = sort_key ?f (filter ?Q u)"
    by (rule sort_key_id_if_sorted) simp
  then show ?thesis
    by (simp add: object_values_def filter_sort)
qed

lemma map_key_filed: "list_all filed l \<Longrightarrow> map key (map snd l) = map fst l"
  by (induction l) (simp_all add: filed_def key_def)


lemma filed_kept: "filed p \<Longrightarrow> kept (snd p)"
  by (auto simp: filed_def kept_def)

lemma fold_fresh:
  assumes "list_all filed l" "list_all (\<lambda>p. plain (quantity (snd p))) l"
    "distinct (map fst u @ map fst l)"
  shows "foldl merge_item u (map snd l) = u @ l"
  using assms
proof (induction l arbitrary: u)
  case Nil
  then show ?case by simp
next
  case (Cons p l)
  obtain k e where p: "p = (k, e)" by (cases p)
  from Cons.prems(1,2) p obtain n where e: "id' e = Str k" "k \<notin> set object_prototype_keys"
      "is_string (price e)" "quantity e = Num n" "1 \<le> n" "n \<le> 9007199254740992"
    by (auto simp: filed_def plain_def)
  have "e\<lparr>quantity := Num (nq e), price := price_string (price e)\<rparr> = e"
    using e by (simp add: normal_quantity_Num price_string_Str)
  moreover have "k \<notin> set (map fst u)" using Cons.prems(3) p by auto
  ultimately have m: "merge_item u e = u @ [(k, e)]"
    using e by (simp add: merge_item_def Let_def)
  have "distinct (map fst (u @ [(k, e)]) @ map fst l)" using Cons.prems(3) p by auto
  from Cons.IH [OF _ _ this] Cons.prems(1,2) m p show ?case by simp
qed

lemma filed_object_values_list:
  "list_all filed u \<Longrightarrow>
   list_all filed (sort_key f (filter Q u) @ filter (\<lambda>p. \<not> Q p) u)"
  by (auto simp: list_all_iff)

lemma distinct_object_values_list:
  "distinct (map fst u) \<Longrightarrow>
   distinct (map fst (sort_key f (filter Q u) @ filter (\<lambda>p. \<not> Q p) u))"
proof -
  assume "distinct (map fst u)"
  then have "distinct (map fst (filter Q u))" "distinct (map fst (filter (\<lambda>p. \<not> Q p) u))"
    by (simp_all add: distinct_map_filter)
  moreover have "distinct (map fst (sort_key f (filter Q u))) = distinct (map fst (filter Q u))"
    by (metis distinct_map distinct_sort set_sort)
  moreover have "fst ` set (filter Q u) \<inter> fst ` set (filter (\<lambda>p. \<not> Q p) u) = {}"
    using \<open>distinct (map fst u)\<close>
    by (auto simp: distinct_map inj_on_def)
  ultimately show ?thesis by simp
qed




text \<open>
  Claim C4, amended. When the stored quantities are numbers or ASCII texts and every
  quantity that the normalization pass puts out is at most \<open>2^53\<close>, running the pass
  on its own output gives the same item list, and on the cart it changes nothing: the list
  is the same and nothing is saved.
\<close>

theorem validate_idempotent_on_safe_quantities:
  assumes "list_all (\<lambda>it. readable (quantity it)) (filter_items es)"
    and "list_all (\<lambda>it. plain (quantity it)) (validate_items es)"
  shows "validate_items (map Object (validate_items es)) = validate_items es
   \<and> (validate (Array es) c = Inr c1 \<longrightarrow> validate (Array (map Object (items c1))) c1 = Inr c1)"
proof -
  let ?xs = "filter_items es"
  let ?U = "foldl merge_item [] ?xs"
  let ?f = "\<lambda>p::string \<times> item. radix_value 10 (fst p)"
  let ?Q = "\<lambda>p::string \<times> item. array_index (fst p)"
  let ?L = "sort_key ?f (filter ?Q ?U) @ filter (\<lambda>p. \<not> ?Q p) ?U"
  have out: "validate_items es = map snd ?L"
    by (simp add: validate_items_def object_values_def)
  have fU: "list_all filed ?U" using filed_fold [of "[]" ?xs] filter_items_kept by simp
  then have fL: "list_all filed ?L" by (rule filed_object_values_list)
  have pL: "list_all (\<lambda>p. plain (quantity (snd p))) ?L"
    using assms(2) unfolding out by (simp add: list_all_iff) blast
  have "distinct (map fst ?U)" using distinct_fold [of "[]" ?xs] by simp
  then have dL: "distinct (map fst ?L)" by (rule distinct_object_values_list)
  have "list_all kept (map snd ?L)"
    using fL by (auto simp: list_all_iff dest: filed_kept)
  then have "filter_items (map Object (map snd ?L)) = map snd ?L"
    by (rule filter_items_Object)
  moreover have "foldl merge_item [] (map snd ?L) = ?L"
    using fold_fresh [OF fL pL, of "[]"] dL by simp
  moreover have "object_values ?L = object_values ?U"
    by (rule object_values_again)
  ultimately have idem: "validate_items (map Object (validate_items es)) = validate_items es"
    unfolding out by (simp add: validate_items_def object_values_def)
  have "validate (Array (map Object (items c1))) c1 = Inr c1" if "validate (Array es) c = Inr c1"
  proof -
    from that have "items c1 = validate_items es"
      by (auto simp: validate_def Let_def split: if_splits)
    then show ?thesis
      using idem by (simp add: validate_def Let_def)
  qed
  with idem show ?thesis by blast
qed

theorem validate_idempotent_on_safe_quantities_witness:
  "validate (Array [Object (product ''b'' ''Bolt'' ''3'' \<lparr>quantity := Str ''2''\<rparr>), NotObject,
                    Object (product ''7'' ''Nut'' ''1'' \<lparr>quantity := Num 0\<rparr>),
                    Object (product ''b'' ''Bolt'' ''3'' \<lparr>quantity := Num 3\<rparr>)])
     \<lparr>items = [], storage = NoEntry\<rparr>
   = Inr \<lparr>items = [product ''7'' ''Nut'' ''1'' \<lparr>quantity := Num 1\<rparr>,
                    product ''b'' ''Bolt'' ''3'' \<lparr>quantity := Num 5\<rparr>],
          storage = JsonText (Array [Object (product ''7'' ''Nut'' ''1'' \<lparr>quantity := Num 1\<rparr>),
                                      Object (product ''b'' ''Bolt'' ''3'' \<lparr>quantity := Num 5\<rparr>)])\<rparr>
   \<and> validate (Array (map Object [product ''7'' ''Nut'' ''1'' \<lparr>quantity := Num 1\<rparr>,
                                      product ''b'' ''Bolt'' ''3'' \<lparr>quantity := Num 5\<rparr>]))
       \<lparr>items = [product ''7'' ''Nut'' ''1'' \<lparr>quantity := Num 1\<rparr>,
                 product ''b'' ''Bolt'' ''3'' \<lparr>quantity := Num 5\<rparr>],
        storage = JsonText (Array [Object (product ''7'' ''Nut'' ''1'' \<lparr>quantity := Num 1\<rparr>),
                                    Object (product ''b'' ''Bolt'' ''3'' \<lparr>quantity := Num 5\<rparr>)])\<rparr>
     = Inr \<lparr>items = [product ''7'' ''Nut'' ''1'' \<lparr>quantity := Num 1\<rparr>,
                      product ''b'' ''Bolt'' ''3'' \<lparr>quantity := Num 5\<rparr>],
            storage = JsonText (Array [Object (product ''7'' ''Nut'' ''1'' \<lparr>quantity := Num 1\<rparr>),
                                        Object (product ''b'' ''Bolt'' ''3'' \<lparr>quantity := Num 5\<rparr>)])\<rparr>"
proof -
  let ?es = "[Object (product ''b'' ''Bolt'' ''3'' \<lparr>quantity := Str ''2''\<rparr>), NotObject,
              Object (product ''7'' ''Nut'' ''1'' \<lparr>quantity := Num 0\<rparr>),
              Object (product ''b'' ''Bolt'' ''3'' \<lparr>quantity := Num 3\<rparr>)]"
  let ?out = "[product ''7'' ''Nut'' ''1'' \<lparr>quantity := Num 1\<rparr>,
               product ''b'' ''Bolt'' ''3'' \<lparr>quantity := Num 5\<rparr>]"
  let ?c1 = "\<lparr>items = ?out, storage = JsonText (Array (map Object ?out))\<rparr>"
  have first: "validate (Array ?es) \<lparr>items = [], storage = NoEntry\<rparr> = Inr ?c1"
    by code_simp
  have out: "validate_items ?es = ?out"
    by code_simp
  have r: "list_all (\<lambda>it. readable (quantity it)) (filter_items ?es)"
    by code_simp
  have "list_all (\<lambda>it. plain (quantity it)) (validate_items ?es)"
    unfolding out by (simp add: plain_def)
  from validate_idempotent_on_safe_quantities [OF r this, of "\<lparr>items = [], storage = NoEntry\<rparr>" ?c1] first
  have "validate (Array (map Object (items ?c1))) ?c1 = Inr ?c1" by blast
  with first show ?thesis by simp
qed

text \<open>
  Claim C4 as stated covers every input list. A stored quantity
  \<^verbatim>\<open>"1000000000000000000000"\<close> parses to the number \<open>10^21\<close>, which the
  first pass keeps. The second pass parses the number's text, \<^verbatim>\<open>"1e+21"\<close>, and
  puts out the quantity 1.
\<close>

theorem validate_twice_differs_counterexample:
  "validate_items
     [Object (product ''p1'' ''Widget'' ''10'' \<lparr>quantity := Str ''1000000000000000000000''\<rparr>)]
   = [product ''p1'' ''Widget'' ''10'' \<lparr>quantity := Num 1000000000000000000000\<rparr>]
   \<and> validate_items
       (map Object [product ''p1'' ''Widget'' ''10'' \<lparr>quantity := Num 1000000000000000000000\<rparr>])
     = [product ''p1'' ''Widget'' ''10'' \<lparr>quantity := Num 1\<rparr>]"
  by code_simp

lemma filter_firsts_from:
  "(\<And>x. P x \<Longrightarrow> (x \<in> S \<longleftrightarrow> x \<in> T)) \<Longrightarrow>
   filter P (firsts_from T xs) = firsts_from S (filter P xs)"
proof (induction xs arbitrary: S T)
  case Nil
  then show ?case by simp
next
  case (Cons x xs)
  show ?case
  proof (cases "P x")
    case True
    with Cons.prems have mem: "x \<in> S \<longleftrightarrow> x \<in> T" by simp
    have "filter P (firsts_from (insert x T) xs) = firsts_from (insert x S) (filter P xs)"
      using Cons.prems by (intro Cons.IH) auto
    moreover have "filter P (firsts_from T xs) = firsts_from S (filter P xs)"
      using Cons.prems by (intro Cons.IH) auto
    ultimately show ?thesis using True mem by simp
  next
    case False
    have "filter P (firsts_from (insert x T) xs) = firsts_from S (filter P xs)"
      using Cons.prems False by (intro Cons.IH) auto
    moreover have "filter P (firsts_from T xs) = firsts_from S (filter P xs)"
      using Cons.prems by (intro Cons.IH) auto
    ultimately show ?thesis using False by simp
  qed
qed

lemma set_firsts_from: "set (firsts_from S xs) \<subseteq> set xs"
  by (induction xs arbitrary: S) auto

lemma keys_validate_items:
  "map key (validate_items es)
   = map fst (sort_key (\<lambda>p. radix_value 10 (fst p))
                (filter (\<lambda>p. array_index (fst p)) (foldl merge_item [] (filter_items es))))
     @ filter (\<lambda>k. \<not> array_index k) (map fst (foldl merge_item [] (filter_items es)))"
proof -
  let ?U = "foldl merge_item [] (filter_items es)"
  have "list_all filed ?U" using filed_fold [of "[]" "filter_items es"] filter_items_kept by simp
  then have "list_all filed (sort_key (\<lambda>p. radix_value 10 (fst p)) (filter (\<lambda>p. array_index (fst p)) ?U)
               @ filter (\<lambda>p. \<not> array_index (fst p)) ?U)"
    by (rule filed_object_values_list)
  from map_key_filed [OF this] show ?thesis
    by (simp add: validate_items_def object_values_def filter_map comp_def)
qed

text \<open>
  Claim C9, amended. Among the entries that survive the normalization pass, those whose
  id is not an array index keep their relative order, each id standing where it first
  occurred; when no id of the list is an array index, that is the order of the whole
  output. Surviving ids are the ids of the filtered entries that are not names of
  properties of \<^verbatim>\<open>Object.prototype\<close>. The rows that \<^verbatim>\<open>render\<close>
  puts out follow the order of the item list.
\<close>

theorem validate_keeps_order:
  "filter (\<lambda>k. \<not> array_index k) (map key (validate_items es))
     = first_occurrences
         (filter (\<lambda>k. \<not> array_index k \<and> k \<notin> set object_prototype_keys) (map key (filter_items es)))
   \<and> (list_all (\<lambda>k. \<not> array_index k) (map key (filter_items es)) \<longrightarrow>
        map key (validate_items es)
          = first_occurrences
              (filter (\<lambda>k. k \<notin> set object_prototype_keys) (map key (filter_items es))))
   \<and> (render c = CartTable rows shown \<longrightarrow> map row_id rows = map key (items c))"
proof -
  let ?xs = "filter_items es"
  let ?U = "foldl merge_item [] ?xs"
  let ?f = "\<lambda>p::string \<times> item. radix_value 10 (fst p)"
  let ?Q = "\<lambda>p::string \<times> item. array_index (fst p)"
  let ?K = "first_occurrences (filter (\<lambda>k. k \<notin> set object_prototype_keys) (map key ?xs))"
  have keysU: "map fst ?U = ?K"
    using keys_fold [of "[]" ?xs] by (simp add: first_occurrences_def)
  have "filter (\<lambda>k. \<not> array_index k) (map fst (sort_key ?f (filter ?Q ?U))) = []"
    by (simp add: filter_map comp_def filter_sort)
  then have 1: "filter (\<lambda>k. \<not> array_index k) (map key (validate_items es))
      = filter (\<lambda>k. \<not> array_index k) ?K"
    by (simp add: keys_validate_items keysU)
  have 2: "filter (\<lambda>k. \<not> array_index k) ?K
      = first_occurrences
         (filter (\<lambda>k. \<not> array_index k \<and> k \<notin> set object_prototype_keys) (map key ?xs))"
    unfolding first_occurrences_def
    by (subst filter_firsts_from [where S = "{}"]) (simp_all add: conj_commute)
  have 3: "map key (validate_items es) = ?K"
    if a: "list_all (\<lambda>k. \<not> array_index k) (map key ?xs)"
  proof -
    have "set ?K \<subseteq> set (map key ?xs)"
      unfolding first_occurrences_def using set_firsts_from by fastforce
    with a have all: "\<forall>k \<in> set (map fst ?U). \<not> array_index k"
      unfolding keysU by (auto simp: list_all_iff)
    then have "filter ?Q ?U = []" by (auto simp: filter_empty_conv)
    moreover have "filter (\<lambda>k. \<not> array_index k) (map fst ?U) = map fst ?U"
      using all by (simp add: filter_id_conv)
    ultimately show ?thesis
      by (simp add: keys_validate_items keysU)
  qed
  have 4: "map row_id rows = map key (items c)" if "render c = CartTable rows shown"
    using that by (auto simp: render_def render_row_def key_def Let_def split: if_splits)
  from 1 2 3 4 show ?thesis by simp
qed

theorem validate_keeps_order_witness:
  "map key (validate_items
      [Object (product ''nut'' ''Nut'' ''1''), Object (product ''bolt'' ''Bolt'' ''3''),
       Object (product ''nut'' ''Nut'' ''1''), Object (product ''toString'' ''Odd'' ''9''),
       Object (product ''anvil'' ''Anvil'' ''50'')])
   = [''nut'', ''bolt'', ''anvil'']
   \<and> map row_id (map render_row [product ''nut'' ''Nut'' ''1'' \<lparr>quantity := Num 2\<rparr>,
                                   product ''bolt'' ''Bolt'' ''3'' \<lparr>quantity := Num 1\<rparr>])
     = [''nut'', ''bolt'']"
proof -
  let ?es = "[Object (product ''nut'' ''Nut'' ''1''), Object (product ''bolt'' ''Bolt'' ''3''),
       Object (product ''nut'' ''Nut'' ''1''), Object (product ''toString'' ''Odd'' ''9''),
       Object (product ''anvil'' ''Anvil'' ''50'')]"
  let ?c = "\<lparr>items = [product ''nut'' ''Nut'' ''1'' \<lparr>quantity := Num 2\<rparr>,
                       product ''bolt'' ''Bolt'' ''3'' \<lparr>quantity := Num 1\<rparr>],
             storage = NoEntry\<rparr>"
  have k: "map key (filter_items ?es) = [''nut'', ''bolt'', ''nut'', ''toString'', ''anvil'']"
    by code_simp
  have n: "list_all (\<lambda>k. \<not> array_index k) [''nut'', ''bolt'', ''nut'', ''toString'', ''anvil'']"
    by code_simp
  have f: "first_occurrences (filter (\<lambda>k. k \<notin> set object_prototype_keys)
             [''nut'', ''bolt'', ''nut'', ''toString'', ''anvil'']) = [''nut'', ''bolt'', ''anvil'']"
    by code_simp
  have r: "render ?c = CartTable (map render_row (items ?c)) (getTotal ?c)"
    by (simp add: render_def)
  have ks: "map key (items ?c) = [''nut'', ''bolt'']"
    by (simp add: key_def product_def)
  from validate_keeps_order [of ?es ?c "map render_row (items ?c)" "getTotal ?c"] r
  have "map key (validate_items ?es)
          = first_occurrences (filter (\<lambda>k. k \<notin> set object_prototype_keys) (map key (filter_items ?es)))"
    and "map row_id (map render_row (items ?c)) = map key (items ?c)"
    unfolding k using n by blast+
  then show ?thesis
    unfolding k f ks by simp
qed

text \<open>
  Claim C9 as stated covers every id. \<^verbatim>\<open>Object.values\<close> lists array-index keys
  first: with the ids \<^verbatim>\<open>"b"\<close> and \<^verbatim>\<open>"1"\<close> stored in this order, the
  pass puts out \<^verbatim>\<open>"1"\<close> before \<^verbatim>\<open>"b"\<close>.
\<close>

theorem validate_moves_index_ids_counterexample:
  "map key (filter_items [Object (product ''b'' ''Bolt'' ''3''), Object (product ''1'' ''Nut'' ''1'')])
     = [''b'', ''1'']
   \<and> map key (validate_items [Object (product ''b'' ''Bolt'' ''3''), Object (product ''1'' ''Nut'' ''1'')])
     = [''1'', ''b'']"
  by code_simp


subsection \<open>The quantity invariant\<close>

text \<open>
  Apart from a quantity that parses to NaN, every operation keeps the invariant that the
  normalization pass establishes.
\<close>

lemma parseInt_cases: "parseInt q = NaN \<or> (\<exists>m. parseInt q = Num m)"
  by (simp add: parseInt_def parseInt_string_def Let_def)

lemma list_all_update_first:
  "list_all P xs \<Longrightarrow> (\<And>x. P x \<Longrightarrow> P (f x)) \<Longrightarrow> list_all P (update_first Q f xs)"
  by (induction xs) auto

lemma validate_positive:
  assumes "validate (Array es) c = Inr c1"
  shows "positive_quantities c1"
proof -
  from assms have "items c1 = validate_items es"
    by (auto simp: validate_def Let_def split: if_splits)
  moreover have "list_all filed (foldl merge_item [] (filter_items es))"
    using filed_fold [of "[]" "filter_items es"] filter_items_kept by simp
  ultimately show ?thesis
    by (auto simp: positive_quantities_def validate_items_def object_values_def list_all_iff
        filed_def)
qed

lemma operations_keep_quantities_positive:
  assumes "positive_quantities c"
  shows "positive_quantities (snd (add p c))"
    and "positive_quantities (remove x c)"
    and "positive_quantities (clear c)"
    and "parseInt q \<noteq> NaN \<Longrightarrow> positive_quantities (updateQuantity x q c)"
proof -
  let ?P = "\<lambda>it. \<exists>n. quantity it = Num n \<and> 1 \<le> n"
  have all: "list_all ?P (items c)" using assms by (simp add: positive_quantities_def)
  have inc: "list_all ?P (update_first Q (\<lambda>it. it\<lparr>quantity := js_plus (quantity it) (Num 1)\<rparr>) (items c))"
    for Q
    using all by (rule list_all_update_first) (auto simp: js_plus_Num)
  show "positive_quantities (snd (add p c))"
    using all inc
    by (simp add: add_def Let_def positive_quantities_def split: option.splits)
  show r: "positive_quantities (remove x c)"
    using all by (simp add: remove_def positive_quantities_def list_all_iff)
  show "positive_quantities (clear c)"
    by (simp add: clear_def positive_quantities_def)
  show "positive_quantities (updateQuantity x q c)" if "parseInt q \<noteq> NaN"
  proof -
    from that parseInt_cases [of q] obtain m where m: "parseInt q = Num m" by blast
    have "list_all ?P (update_first Q (\<lambda>it. it\<lparr>quantity := Num m\<rparr>) (items c))"
      if "\<not> m \<le> 0" for Q
      using all by (rule list_all_update_first) (use that in auto)
    then show ?thesis
      using assms r m
      by (simp add: updateQuantity_def Let_def positive_quantities_def split: option.splits)
  qed
qed

end
